theory Spec2Isabelle
  imports Main
begin

section \<open>Shared helpers: JavaScript values as HOL values\<close>

text \<open>
  JavaScript strings are modelled as \<open>string\<close> (a list of characters), numbers that
  are only ever positions or HTTP status codes as \<open>nat\<close>, numbers that come from the
  network as \<open>int\<close>, and \<open>null\<close>/\<open>undefined\<close> as \<open>None\<close>.
\<close>

text \<open>Number-to-string conversion of a non-negative integer, as a template literal
  \<^verbatim>\<open>`${n}`\<close> performs it: decimal, no leading zeros.\<close>

definition digit_char :: "nat \<Rightarrow> char" where
  "digit_char d = char_of (48 + d)"

function string_of_nat :: "nat \<Rightarrow> string" where
  "string_of_nat n =
     (if n < 10 then [digit_char n]
      else string_of_nat (n div 10) @ [digit_char (n mod 10)])"
  by pat_completeness auto
termination
  by (relation "measure (\<lambda>n. n)") auto

declare string_of_nat.simps [simp del]

section \<open>The Vuex store (main.js): state, mutations and the submitQuery action\<close>

text \<open>
  \<^verbatim>\<open>state() { return { query: '', results: null, loading: false, error: null,
                     showIngestionProgress: true } }\<close>
  The type \<open>'r\<close> is the JSON value that \<^verbatim>\<open>response.json()\<close> yields.
\<close>

record 'r store_state =
  query :: string
  results :: "'r option"
  loading :: bool
  error :: "string option"
  showIngestionProgress :: bool

definition initial_state :: "'r store_state" where
  "initial_state =
     \<lparr>query = [], results = None, loading = False, error = None,
      showIngestionProgress = True\<rparr>"

definition setQuery :: "'r store_state \<Rightarrow> string \<Rightarrow> 'r store_state" where
  "setQuery state q = state\<lparr>query := q\<rparr>"

definition setResults :: "'r store_state \<Rightarrow> 'r option \<Rightarrow> 'r store_state" where
  "setResults state r = state\<lparr>results := r\<rparr>"

definition setLoading :: "'r store_state \<Rightarrow> bool \<Rightarrow> 'r store_state" where
  "setLoading state l = state\<lparr>loading := l\<rparr>"

definition setError :: "'r store_state \<Rightarrow> string option \<Rightarrow> 'r store_state" where
  "setError state e = state\<lparr>error := e\<rparr>"

text \<open>
  What the network gives back to \<^verbatim>\<open>await fetch(...)\<close> and to
  \<^verbatim>\<open>await response.json()\<close>: either promise may reject, which the
  \<^verbatim>\<open>try\<close> block sees as a thrown error carrying a message.
\<close>

datatype 'r json_outcome = JsonThrows string | JsonData 'r

record 'r response =
  ok :: bool
  status :: nat
  json :: "'r json_outcome"

datatype 'r fetch_outcome = FetchThrows string | Resolved "'r response"

text \<open>The request handed to \<^verbatim>\<open>fetch\<close>; the body is the object given to
  \<^verbatim>\<open>JSON.stringify\<close>.\<close>

record 'b request =
  url :: string
  http_method :: string
  headers :: "(string \<times> string) list"
  body :: 'b

record query_body =
  body_query :: string
  max_results :: nat
  use_memory :: bool

definition submitQuery_request :: "string \<Rightarrow> query_body request" where
  "submitQuery_request q =
     \<lparr>url = ''/api/query'', http_method = ''POST'',
      headers = [(''Content-Type'', ''application/json'')],
      body = \<lparr>body_query = q, max_results = 5, use_memory = True\<rparr>\<rparr>"

text \<open>
  \<^verbatim>\<open>commit(name, payload)\<close> runs the mutation of that name on the state.
\<close>

datatype 'r commit =
    SetQuery string
  | SetResults "'r option"
  | SetLoading bool
  | SetError "string option"

fun run_commit :: "'r store_state \<Rightarrow> 'r commit \<Rightarrow> 'r store_state" where
  "run_commit state (SetQuery q) = setQuery state q"
| "run_commit state (SetResults r) = setResults state r"
| "run_commit state (SetLoading l) = setLoading state l"
| "run_commit state (SetError e) = setError state e"

text \<open>
  What the action does, in order: commits, and the one call of \<^verbatim>\<open>fetch\<close>.
  \<open>fetch\<close> is the network: it maps the request to what comes back. The
  \<^verbatim>\<open>try\<close> body either reaches \<^verbatim>\<open>commit('setResults', data)\<close> or throws
  (when \<^verbatim>\<open>fetch\<close> rejects, when the response is not ok, when
  \<^verbatim>\<open>response.json()\<close> rejects); \<^verbatim>\<open>catch\<close> commits the message of what was
  thrown; \<^verbatim>\<open>finally\<close> commits \<^verbatim>\<open>setLoading(false)\<close>.
\<close>

datatype 'r action_step = Commit "'r commit" | Fetch "query_body request"

definition submitQuery_steps ::
  "(query_body request \<Rightarrow> 'r fetch_outcome) \<Rightarrow> string \<Rightarrow> 'r action_step list" where
  "submitQuery_steps fetch q =
     [Commit (SetLoading True), Commit (SetError None), Commit (SetQuery q),
      Fetch (submitQuery_request q)]
     @ (case fetch (submitQuery_request q) of
          FetchThrows msg \<Rightarrow> [Commit (SetError (Some msg))]
        | Resolved resp \<Rightarrow>
            if \<not> ok resp
            then [Commit (SetError (Some (''API error: '' @ string_of_nat (status resp))))]
            else (case json resp of
                    JsonThrows msg \<Rightarrow> [Commit (SetError (Some msg))]
                  | JsonData data \<Rightarrow> [Commit (SetResults (Some data))]))
     @ [Commit (SetLoading False)]"

fun run_step :: "'r store_state \<Rightarrow> 'r action_step \<Rightarrow> 'r store_state" where
  "run_step state (Commit c) = run_commit state c"
| "run_step state (Fetch r) = state"

text \<open>The action: the state after its steps.\<close>

definition submitQuery ::
  "(query_body request \<Rightarrow> 'r fetch_outcome) \<Rightarrow> 'r store_state \<Rightarrow> string \<Rightarrow> 'r store_state"
where
  "submitQuery fetch state q = foldl run_step state (submitQuery_steps fetch q)"

text \<open>The requests among the steps of an action.\<close>

fun fetches :: "'r action_step list \<Rightarrow> query_body request list" where
  "fetches [] = []"
| "fetches (Commit c # steps) = fetches steps"
| "fetches (Fetch r # steps) = r # fetches steps"

section \<open>HomeView.vue: citations in the answer and the chunk cards\<close>

subsection \<open>formatAnswer\<close>

text \<open>
  \<^verbatim>\<open>formattedAnswer.replace(/\[chunk(\d+)\]/g, '<a href="#chunk-$1" ...>[chunk$1]</a>')\<close>

  \<open>match_citation s\<close> is the regular expression tried at the start of \<open>s\<close>: the
  literal \<open>[chunk\<close>, the longest run of ASCII digits (at least one), then \<open>]\<close>. It
  returns the digits captured by group 1 and the text after the match. (A shorter run
  of digits cannot match either: the character after it is a digit, not \<open>]\<close>.)
\<close>

definition isDigit :: "char \<Rightarrow> bool" where
  "isDigit c = (c \<in> set ''0123456789'')"

fun strip_prefix :: "string \<Rightarrow> string \<Rightarrow> string option" where
  "strip_prefix [] s = Some s"
| "strip_prefix (p # ps) [] = None"
| "strip_prefix (p # ps) (c # cs) = (if p = c then strip_prefix ps cs else None)"

definition match_citation :: "string \<Rightarrow> (string \<times> string) option" where
  "match_citation s =
     (case strip_prefix ''[chunk'' s of
        None \<Rightarrow> None
      | Some r \<Rightarrow>
          (case dropWhile isDigit r of
             [] \<Rightarrow> None
           | c # rest \<Rightarrow>
               if takeWhile isDigit r \<noteq> [] \<and> c = CHR '']''
               then Some (takeWhile isDigit r, rest) else None))"

lemma strip_prefix_length: "strip_prefix p s = Some r \<Longrightarrow> length r \<le> length s"
  by (induction p s rule: strip_prefix.induct) (auto split: if_splits)

lemma match_citation_shorter:
  assumes "match_citation s = Some (ds, rest)"
  shows "length rest < length s"
proof -
  from assms obtain r c where r: "strip_prefix ''[chunk'' s = Some r"
    and d: "dropWhile isDigit r = c # rest"
    by (auto simp: match_citation_def split: option.splits list.splits if_splits)
  have "length (dropWhile isDigit r) \<le> length r"
    by (rule length_dropWhile_le)
  with d have "length rest < length r" by simp
  with strip_prefix_length [OF r] show ?thesis by simp
qed

text \<open>
  The scan of a global replace: from left to right, a match becomes a citation and the
  scan goes on after it; a character where the expression does not match is copied.
\<close>

datatype segment = Plain char | Citation string

function segments :: "string \<Rightarrow> segment list" where
  "segments [] = []"
| "segments (c # cs) =
     (case match_citation (c # cs) of
        Some (ds, rest) \<Rightarrow> Citation ds # segments rest
      | None \<Rightarrow> Plain c # segments cs)"
  by pat_completeness auto
termination
  by (relation "measure length") (auto dest: match_citation_shorter)

text \<open>What a match is.\<close>

lemma strip_prefix_iff: "strip_prefix p s = Some r \<longleftrightarrow> s = p @ r"
  by (induction p s rule: strip_prefix.induct) auto

lemma not_digit_bracket: "\<not> isDigit (CHR '']'')" "\<not> isDigit (CHR ''['')"
  by (simp_all add: isDigit_def)

lemma match_citation_iff:
  "match_citation s = Some (ds, rest) \<longleftrightarrow>
     s = ''[chunk'' @ ds @ '']'' @ rest \<and> ds \<noteq> [] \<and> (\<forall>c \<in> set ds. isDigit c)"
proof
  assume m: "match_citation s = Some (ds, rest)"
  then obtain r c where r: "s = ''[chunk'' @ r"
    and d: "dropWhile isDigit r = c # rest" and t: "takeWhile isDigit r = ds"
    and ne: "ds \<noteq> []" and c: "c = CHR '']''"
    by (auto simp: match_citation_def strip_prefix_iff
             split: option.splits list.splits if_splits)
  have "r = takeWhile isDigit r @ dropWhile isDigit r" by simp
  with d t c have "r = ds @ '']'' @ rest" by simp
  moreover from t have "\<forall>c \<in> set ds. isDigit c"
    by (auto dest: set_takeWhileD)
  ultimately show "s = ''[chunk'' @ ds @ '']'' @ rest \<and> ds \<noteq> [] \<and> (\<forall>c \<in> set ds. isDigit c)"
    using r ne by simp
next
  assume a: "s = ''[chunk'' @ ds @ '']'' @ rest \<and> ds \<noteq> [] \<and> (\<forall>c \<in> set ds. isDigit c)"
  then have sp: "strip_prefix ''[chunk'' s = Some (ds @ '']'' @ rest)"
    by (simp add: strip_prefix_iff)
  from a have t: "takeWhile isDigit (ds @ '']'' @ rest) = ds"
    by (simp add: takeWhile_append2 not_digit_bracket takeWhile_tail)
  from a have d: "dropWhile isDigit (ds @ '']'' @ rest) = '']'' @ rest"
    by (simp add: dropWhile_append2 not_digit_bracket)
  show "match_citation s = Some (ds, rest)"
    unfolding match_citation_def sp using t d a by simp
qed

text \<open>The element id a citation link points to: \<^verbatim>\<open>chunk-$1\<close>.\<close>

definition citation_target :: "string \<Rightarrow> string" where
  "citation_target ds = ''chunk-'' @ ds"

text \<open>The replacement template with \<^verbatim>\<open>$1\<close> filled in.\<close>

definition citation_link :: "string \<Rightarrow> string" where
  \<open>citation_link ds =
     ''<a href="#'' @ citation_target ds
     @ ''" class="chunk-citation-link" onclick="document.getElementById(''
     @ [CHR 0x27] @ citation_target ds @ [CHR 0x27]
     @ '').scrollIntoView({behavior: '' @ [CHR 0x27] @ ''smooth'' @ [CHR 0x27]
     @ ''}); return false;">[chunk'' @ ds @ '']</a>''\<close>

fun render :: "segment \<Rightarrow> string" where
  "render (Plain c) = [c]"
| "render (Citation ds) = citation_link ds"

text \<open>The text a segment was read from.\<close>

fun source_text :: "segment \<Rightarrow> string" where
  "source_text (Plain c) = [c]"
| "source_text (Citation ds) = ''[chunk'' @ ds @ '']''"

text \<open>The segments of a text spell it out again.\<close>

lemma segments_source: "concat (map source_text (segments s)) = s"
proof (induction s rule: segments.induct)
  case 1
  show ?case by simp
next
  case (2 c cs)
  show ?case
  proof (cases "match_citation (c # cs)")
    case None
    with 2(1) show ?thesis by simp
  next
    case (Some a)
    obtain ds r where a: "a = (ds, r)" by (cases a)
    with Some have m: "match_citation (c # cs) = Some (ds, r)" by simp
    then have "c # cs = ''[chunk'' @ ds @ '']'' @ r" by (simp add: match_citation_iff)
    with m 2(2) [OF m refl] show ?thesis by simp
  qed
qed

definition replace_citations :: "string \<Rightarrow> string" where
  "replace_citations s = concat (map render (segments s))"

text \<open>
  \<^verbatim>\<open>const formatAnswer = (answer) => { let formattedAnswer = marked(answer); ... }\<close>
  The markdown renderer \<open>marked\<close> is a library outside the repository and is a
  parameter here.
\<close>

definition formatAnswer :: "(string \<Rightarrow> string) \<Rightarrow> string \<Rightarrow> string" where
  "formatAnswer marked answer = replace_citations (marked answer)"

text \<open>The targets of the links that formatAnswer puts into a rendered text.\<close>

definition citation_targets :: "string \<Rightarrow> string list" where
  "citation_targets s =
     concat (map (\<lambda>g. case g of Plain c \<Rightarrow> [] | Citation ds \<Rightarrow> [citation_target ds])
                 (segments s))"

subsection \<open>The query response and the chunk cards of the template\<close>

text \<open>
  The response of \<^verbatim>\<open>POST /api/query\<close>, as the view reads it. Chunks and
  entities are displayed only, so their types are parameters. A missing or null
  property is \<open>None\<close>.
\<close>

record ('c, 'e) query_response =
  answer :: string
  memory_id :: "int option"
  from_memory :: bool
  chunks :: "'c list option"
  entities :: "'e list option"
  references :: "string option list option"

text \<open>Reading a JavaScript array: an index past the end gives \<open>undefined\<close>.\<close>

definition array_get :: "'a option list \<Rightarrow> nat \<Rightarrow> 'a option" where
  "array_get xs i = (if i < length xs then xs ! i else None)"

text \<open>Truthiness of a value that is a string, null or undefined.\<close>

definition truthy :: "string option \<Rightarrow> bool" where
  "truthy v = (case v of None \<Rightarrow> False | Some s \<Rightarrow> s \<noteq> [])"

definition getChunkReference ::
  "('c, 'e) query_response option \<Rightarrow> nat \<Rightarrow> string option" where
  "getChunkReference results_value index =
     (case results_value of
        None \<Rightarrow> None
      | Some r \<Rightarrow>
          (case references r of
             None \<Rightarrow> None
           | Some refs \<Rightarrow>
               if truthy (array_get refs index) then array_get refs index else None))"

text \<open>
  One card per chunk:
  \<^verbatim>\<open><div v-for="(chunk, index) in results.chunks" :id="`chunk-${index + 1}`">\<close>
  with the reference link when \<^verbatim>\<open>getChunkReference(index)\<close> is truthy and the
  words "Document excerpt" otherwise.
\<close>

datatype chunk_title = ReferenceLink string | DocumentExcerpt

record chunk_card =
  card_id :: string
  chunk_number :: string
  card_title :: chunk_title

definition chunk_card_at :: "('c, 'e) query_response option \<Rightarrow> nat \<Rightarrow> chunk_card" where
  "chunk_card_at results_value index =
     \<lparr>card_id = ''chunk-'' @ string_of_nat (index + 1),
      chunk_number = ''[chunk '' @ string_of_nat (index + 1) @ '']'',
      card_title = (if truthy (getChunkReference results_value index)
                    then ReferenceLink (the (getChunkReference results_value index))
                    else DocumentExcerpt)\<rparr>"

text \<open>The section is shown when \<^verbatim>\<open>results && !loading\<close> and the chunk list is
  present and not empty.\<close>

definition chunk_cards :: "('c, 'e) query_response option \<Rightarrow> bool \<Rightarrow> chunk_card list" where
  "chunk_cards results_value is_loading =
     (case results_value of
        None \<Rightarrow> []
      | Some r \<Rightarrow>
          if is_loading then []
          else (case chunks r of
                  None \<Rightarrow> []
                | Some cs \<Rightarrow> map (chunk_card_at results_value) [0..<length cs]))"


section \<open>The synthesizer behind /api/query\<close>

text \<open>
  The answer of a response is made by the synthesizer of the backend, which is not among
  the sources at hand. It is modelled from its contract in the specification,
  \<^verbatim>\<open>synthesize(query, orderedContext) -> Answer{text, usedCitations}\<close>; the
  generative step is a parameter, and nothing is assumed about the text it returns.
\<close>


text \<open>Modelled from the spec: the range test of the absent synthesizer, "emitted citations
  (\<open>[chunkN]\<close>) only reference indices present in orderedContext", the indices being
  "assigned in the final chunk order, 1-based". \<open>N\<close> references an index when it is
  the decimal numeral of a position 1..n, as the numbering writes it; digits that are the
  numeral of no position (also a numeral with leading zeros) reference none.\<close>

definition permitted :: "nat \<Rightarrow> string \<Rightarrow> bool" where
  "permitted n ds = (ds \<in> set (map string_of_nat [1..<Suc n]))"
















section \<open>ResultActions.vue: favourites and the feedback form\<close>

text \<open>
  The repository has two versions of the component: the older one has a single rating,
  the newer one adds the ratings for accuracy, comprehensiveness and helpfulness. The
  newer state is the older one with three more fields, so what the two versions share
  is defined once, on the extensible record.
\<close>

subsection \<open>Requests, stored feedback, effects\<close>

text \<open>A property of a JSON request body: left out, sent as null, or sent with a value.\<close>

datatype 'a field = Absent | Null | Value 'a

record feedback_fields =
  req_rating :: "int field"
  req_accuracy_rating :: "int field"
  req_comprehensiveness_rating :: "int field"
  req_helpfulness_rating :: "int field"
  req_feedback_text :: "string field"
  req_is_favorite :: "bool field"

record feedback_body = feedback_fields +
  req_memory_id :: "int option"

text \<open>The feedback object that \<^verbatim>\<open>GET /api/feedback/{memory_id}\<close> returns in
  \<^verbatim>\<open>data.feedback\<close>, which is also the stored record.\<close>

record feedback =
  fb_rating :: "int option"
  fb_accuracy_rating :: "int option"
  fb_comprehensiveness_rating :: "int option"
  fb_helpfulness_rating :: "int option"
  fb_feedback_text :: "string option"
  fb_is_favorite :: bool

record feedback_data =
  data_status :: string
  data_feedback :: "feedback option"

datatype api_request =
    PostFeedback feedback_body
  | GetFeedback int
  | DeleteFeedback "int option"

text \<open>The network and the server behind it: a request changes the server's state
  \<open>'w\<close> and gives the client an outcome.\<close>

type_synonym 'w net = "api_request \<Rightarrow> 'w \<Rightarrow> feedback_data fetch_outcome \<times> 'w"

datatype event = FavoriteChanged bool | FeedbackSubmitted | FeedbackCleared

datatype effect = Emit event | Alert string | ConsoleError string

record result_actions_legacy =
  memoryId :: "int option"
  showFeedback :: bool
  rating :: int
  feedbackText :: string
  isFavorite :: bool
  isSubmitting :: bool
  existingFeedback :: "feedback option"

record result_actions = result_actions_legacy +
  accuracyRating :: int
  comprehensivenessRating :: int
  helpfulnessRating :: int

subsection \<open>String helpers\<close>

text \<open>\<^verbatim>\<open>String.prototype.trim\<close>: white space and line terminators are removed at both
  ends. Of the characters it removes, those that fit the 8-bit \<open>char\<close> are listed.\<close>

definition isWhiteSpace :: "char \<Rightarrow> bool" where
  "isWhiteSpace c =
     (c \<in> set [CHR 0x09, CHR 0x0A, CHR 0x0B, CHR 0x0C, CHR 0x0D, CHR 0x20, CHR 0xA0])"

definition trim :: "string \<Rightarrow> string" where
  "trim s = rev (dropWhile isWhiteSpace (rev (dropWhile isWhiteSpace s)))"

text \<open>\<^verbatim>\<open>x > 0 ? x : null\<close> and \<^verbatim>\<open>s.trim() || null\<close> as JSON properties;
  \<^verbatim>\<open>v || 0\<close> and \<^verbatim>\<open>v || ''\<close> on a value read from JSON.\<close>

definition positive_or_null :: "int \<Rightarrow> int field" where
  "positive_or_null x = (if x > 0 then Value x else Null)"

definition trimmed_or_null :: "string \<Rightarrow> string field" where
  "trimmed_or_null s = (if trim s = [] then Null else Value (trim s))"

definition or_zero :: "int option \<Rightarrow> int" where
  "or_zero v = (case v of None \<Rightarrow> 0 | Some x \<Rightarrow> x)"

definition or_empty :: "string option \<Rightarrow> string" where
  "or_empty v = (case v of None \<Rightarrow> [] | Some t \<Rightarrow> t)"

text \<open>\<^verbatim>\<open>!this.memoryId\<close>: null and 0 are falsy.\<close>

definition memoryId_falsy :: "int option \<Rightarrow> bool" where
  "memoryId_falsy m = (case m of None \<Rightarrow> True | Some i \<Rightarrow> i = 0)"

subsection \<open>toggleFavorite (the same in both versions)\<close>

definition toggleFavorite_body :: "'a result_actions_legacy_scheme \<Rightarrow> feedback_body" where
  "toggleFavorite_body this =
     \<lparr>req_rating = Absent, req_accuracy_rating = Absent,
      req_comprehensiveness_rating = Absent, req_helpfulness_rating = Absent,
      req_feedback_text = Absent, req_is_favorite = Value (\<not> isFavorite this),
      req_memory_id = memoryId this\<rparr>"

definition toggleFavorite ::
  "'w net \<Rightarrow> 'w \<Rightarrow> 'a result_actions_legacy_scheme
     \<Rightarrow> 'w \<times> 'a result_actions_legacy_scheme \<times> effect list" where
  "toggleFavorite net w this =
     (let this1 = this\<lparr>isSubmitting := True\<rparr>;
          (outcome, w1) = net (PostFeedback (toggleFavorite_body this1)) w
      in case outcome of
           Resolved response \<Rightarrow>
             if ok response
             then (w1, this1\<lparr>isFavorite := \<not> isFavorite this1, isSubmitting := False\<rparr>,
                   [Emit (FavoriteChanged (\<not> isFavorite this1))])
             else (w1, this1\<lparr>isSubmitting := False\<rparr>,
                   [ConsoleError ''Failed to update favorite status''])
         | FetchThrows msg \<Rightarrow>
             (w1, this1\<lparr>isSubmitting := False\<rparr>,
              [ConsoleError ''Error updating favorite:'']))"

subsection \<open>loadExistingFeedback\<close>

text \<open>
  Called when the component is mounted, when the form is opened and after a successful
  submit. When \<^verbatim>\<open>data.status === 'success'\<close> the fields are copied from
  \<^verbatim>\<open>data.feedback\<close>; if that is null, the assignment of
  \<^verbatim>\<open>existingFeedback\<close> has happened when reading \<^verbatim>\<open>data.feedback.rating\<close>
  throws into the \<^verbatim>\<open>catch\<close>.
\<close>

definition loadExistingFeedback_legacy ::
  "'w net \<Rightarrow> 'w \<Rightarrow> 'a result_actions_legacy_scheme
     \<Rightarrow> 'w \<times> 'a result_actions_legacy_scheme \<times> effect list" where
  "loadExistingFeedback_legacy net w this =
     (case memoryId this of
        None \<Rightarrow> (w, this, [])
      | Some i \<Rightarrow>
          if i = 0 then (w, this, [])
          else
            (let (outcome, w1) = net (GetFeedback i) w
             in case outcome of
                  FetchThrows msg \<Rightarrow>
                    (w1, this, [ConsoleError ''Error loading existing feedback:''])
                | Resolved response \<Rightarrow>
                    if \<not> ok response then (w1, this, [])
                    else (case json response of
                            JsonThrows msg \<Rightarrow>
                              (w1, this, [ConsoleError ''Error loading existing feedback:''])
                          | JsonData data \<Rightarrow>
                              if data_status data \<noteq> ''success'' then (w1, this, [])
                              else (case data_feedback data of
                                      None \<Rightarrow>
                                        (w1, this\<lparr>existingFeedback := None\<rparr>,
                                         [ConsoleError ''Error loading existing feedback:''])
                                    | Some fb \<Rightarrow>
                                        (w1, this\<lparr>existingFeedback := Some fb,
                                                  rating := or_zero (fb_rating fb),
                                                  feedbackText := or_empty (fb_feedback_text fb)\<rparr>,
                                         [])))))"

definition loadExistingFeedback ::
  "'w net \<Rightarrow> 'w \<Rightarrow> result_actions \<Rightarrow> 'w \<times> result_actions \<times> effect list" where
  "loadExistingFeedback net w this =
     (case memoryId this of
        None \<Rightarrow> (w, this, [])
      | Some i \<Rightarrow>
          if i = 0 then (w, this, [])
          else
            (let (outcome, w1) = net (GetFeedback i) w
             in case outcome of
                  FetchThrows msg \<Rightarrow>
                    (w1, this, [ConsoleError ''Error loading existing feedback:''])
                | Resolved response \<Rightarrow>
                    if \<not> ok response then (w1, this, [])
                    else (case json response of
                            JsonThrows msg \<Rightarrow>
                              (w1, this, [ConsoleError ''Error loading existing feedback:''])
                          | JsonData data \<Rightarrow>
                              if data_status data \<noteq> ''success'' then (w1, this, [])
                              else (case data_feedback data of
                                      None \<Rightarrow>
                                        (w1, this\<lparr>existingFeedback := None\<rparr>,
                                         [ConsoleError ''Error loading existing feedback:''])
                                    | Some fb \<Rightarrow>
                                        (w1, this\<lparr>existingFeedback := Some fb,
                                                  rating := or_zero (fb_rating fb),
                                                  accuracyRating := or_zero (fb_accuracy_rating fb),
                                                  comprehensivenessRating :=
                                                    or_zero (fb_comprehensiveness_rating fb),
                                                  helpfulnessRating :=
                                                    or_zero (fb_helpfulness_rating fb),
                                                  feedbackText := or_empty (fb_feedback_text fb)\<rparr>,
                                         [])))))"

subsection \<open>submitFeedback\<close>

definition submitFeedback_guard_legacy :: "'a result_actions_legacy_scheme \<Rightarrow> bool" where
  "submitFeedback_guard_legacy this =
     (rating this = 0 \<and> trim (feedbackText this) = [] \<and> \<not> isFavorite this)"

definition submitFeedback_body_legacy :: "'a result_actions_legacy_scheme \<Rightarrow> feedback_body" where
  "submitFeedback_body_legacy this =
     \<lparr>req_rating = positive_or_null (rating this),
      req_accuracy_rating = Absent, req_comprehensiveness_rating = Absent,
      req_helpfulness_rating = Absent,
      req_feedback_text = trimmed_or_null (feedbackText this),
      req_is_favorite = Value (isFavorite this),
      req_memory_id = memoryId this\<rparr>"

definition submitFeedback_legacy ::
  "'w net \<Rightarrow> 'w \<Rightarrow> 'a result_actions_legacy_scheme
     \<Rightarrow> 'w \<times> 'a result_actions_legacy_scheme \<times> effect list" where
  "submitFeedback_legacy net w this =
     (if submitFeedback_guard_legacy this
      then (w, this,
            [Alert ''Please provide at least a rating, comment, or mark as favorite''])
      else
        (let this1 = this\<lparr>isSubmitting := True\<rparr>;
             (outcome, w1) = net (PostFeedback (submitFeedback_body_legacy this1)) w
         in case outcome of
              Resolved response \<Rightarrow>
                if ok response
                then (let (w2, this2, fx) =
                            loadExistingFeedback_legacy net w1 (this1\<lparr>showFeedback := False\<rparr>)
                      in (w2, this2\<lparr>isSubmitting := False\<rparr>, fx @ [Emit FeedbackSubmitted]))
                else (w1, this1\<lparr>isSubmitting := False\<rparr>,
                      [ConsoleError ''Failed to submit feedback'',
                       Alert ''Failed to submit feedback. Please try again.''])
            | FetchThrows msg \<Rightarrow>
                (w1, this1\<lparr>isSubmitting := False\<rparr>,
                 [ConsoleError ''Error submitting feedback:'',
                  Alert ''Failed to submit feedback. Please try again.''])))"

definition submitFeedback_guard :: "result_actions \<Rightarrow> bool" where
  "submitFeedback_guard this =
     (rating this = 0 \<and> accuracyRating this = 0 \<and> comprehensivenessRating this = 0
      \<and> helpfulnessRating this = 0 \<and> trim (feedbackText this) = [] \<and> \<not> isFavorite this)"

definition submitFeedback_body :: "result_actions \<Rightarrow> feedback_body" where
  "submitFeedback_body this =
     \<lparr>req_rating = positive_or_null (rating this),
      req_accuracy_rating = positive_or_null (accuracyRating this),
      req_comprehensiveness_rating = positive_or_null (comprehensivenessRating this),
      req_helpfulness_rating = positive_or_null (helpfulnessRating this),
      req_feedback_text = trimmed_or_null (feedbackText this),
      req_is_favorite = Value (isFavorite this),
      req_memory_id = memoryId this\<rparr>"

definition submitFeedback ::
  "'w net \<Rightarrow> 'w \<Rightarrow> result_actions \<Rightarrow> 'w \<times> result_actions \<times> effect list" where
  "submitFeedback net w this =
     (if submitFeedback_guard this
      then (w, this,
            [Alert ''Please provide at least one rating, comment, or mark as favorite''])
      else
        (let this1 = this\<lparr>isSubmitting := True\<rparr>;
             (outcome, w1) = net (PostFeedback (submitFeedback_body this1)) w
         in case outcome of
              Resolved response \<Rightarrow>
                if ok response
                then (let (w2, this2, fx) =
                            loadExistingFeedback net w1 (this1\<lparr>showFeedback := False\<rparr>)
                      in (w2, this2\<lparr>isSubmitting := False\<rparr>, fx @ [Emit FeedbackSubmitted]))
                else (w1, this1\<lparr>isSubmitting := False\<rparr>,
                      [ConsoleError ''Failed to submit feedback'',
                       Alert ''Failed to submit feedback. Please try again.''])
            | FetchThrows msg \<Rightarrow>
                (w1, this1\<lparr>isSubmitting := False\<rparr>,
                 [ConsoleError ''Error submitting feedback:'',
                  Alert ''Failed to submit feedback. Please try again.''])))"

subsection \<open>clearAllFeedback\<close>

text \<open>\<open>confirmed\<close> is the answer to the \<^verbatim>\<open>confirm(...)\<close> dialog.\<close>

definition clearAllFeedback_legacy ::
  "bool \<Rightarrow> 'w net \<Rightarrow> 'w \<Rightarrow> 'a result_actions_legacy_scheme
     \<Rightarrow> 'w \<times> 'a result_actions_legacy_scheme \<times> effect list" where
  "clearAllFeedback_legacy confirmed net w this =
     (if \<not> confirmed then (w, this, [])
      else
        (let this1 = this\<lparr>isSubmitting := True\<rparr>;
             (outcome, w1) = net (DeleteFeedback (memoryId this1)) w
         in case outcome of
              Resolved response \<Rightarrow>
                if ok response
                then (w1, this1\<lparr>existingFeedback := None, rating := 0, feedbackText := [],
                                isFavorite := False, showFeedback := False,
                                isSubmitting := False\<rparr>,
                      [Emit FeedbackCleared])
                else (w1, this1\<lparr>isSubmitting := False\<rparr>,
                      [ConsoleError ''Failed to clear feedback'',
                       Alert ''Failed to clear feedback. Please try again.''])
            | FetchThrows msg \<Rightarrow>
                (w1, this1\<lparr>isSubmitting := False\<rparr>,
                 [ConsoleError ''Error clearing feedback:'',
                  Alert ''Failed to clear feedback. Please try again.''])))"

definition clearAllFeedback ::
  "bool \<Rightarrow> 'w net \<Rightarrow> 'w \<Rightarrow> result_actions \<Rightarrow> 'w \<times> result_actions \<times> effect list" where
  "clearAllFeedback confirmed net w this =
     (if \<not> confirmed then (w, this, [])
      else
        (let this1 = this\<lparr>isSubmitting := True\<rparr>;
             (outcome, w1) = net (DeleteFeedback (memoryId this1)) w
         in case outcome of
              Resolved response \<Rightarrow>
                if ok response
                then (w1, this1\<lparr>existingFeedback := None, rating := 0, accuracyRating := 0,
                                comprehensivenessRating := 0, helpfulnessRating := 0,
                                feedbackText := [], isFavorite := False,
                                showFeedback := False, isSubmitting := False\<rparr>,
                      [Emit FeedbackCleared])
                else (w1, this1\<lparr>isSubmitting := False\<rparr>,
                      [ConsoleError ''Failed to clear feedback'',
                       Alert ''Failed to clear feedback. Please try again.''])
            | FetchThrows msg \<Rightarrow>
                (w1, this1\<lparr>isSubmitting := False\<rparr>,
                 [ConsoleError ''Error clearing feedback:'',
                  Alert ''Failed to clear feedback. Please try again.''])))"

text \<open>The state that \<^verbatim>\<open>data()\<close> returns for a component mounted with the given
  props.\<close>

definition initial_result_actions :: "int option \<Rightarrow> bool \<Rightarrow> result_actions" where
  "initial_result_actions memory_id_prop initialFavorite =
     \<lparr>memoryId = memory_id_prop, showFeedback = False, rating = 0, feedbackText = [],
      isFavorite = initialFavorite, isSubmitting = False, existingFeedback = None,
      accuracyRating = 0, comprehensivenessRating = 0, helpfulnessRating = 0\<rparr>"

subsection \<open>HomeView.handleRating\<close>

text \<open>The view posts \<^verbatim>\<open>{memory_id, rating}\<close> when the response has a memory id other
  than \<open>-1\<close>; failures are only logged. (It also keeps the rating in the view's own
  \<^verbatim>\<open>userRating\<close>, which nothing here reads.)\<close>

definition handleRating_body :: "int \<Rightarrow> int \<Rightarrow> feedback_body" where
  "handleRating_body mem r =
     \<lparr>req_rating = Value r, req_accuracy_rating = Absent,
      req_comprehensiveness_rating = Absent, req_helpfulness_rating = Absent,
      req_feedback_text = Absent, req_is_favorite = Absent, req_memory_id = Some mem\<rparr>"

definition handleRating ::
  "'w net \<Rightarrow> 'w \<Rightarrow> ('c, 'e) query_response option \<Rightarrow> int \<Rightarrow> 'w" where
  "handleRating net w results_value r =
     (case results_value of
        None \<Rightarrow> w
      | Some res \<Rightarrow>
          if memoryId_falsy (memory_id res) \<or> memory_id res = Some (- 1) then w
          else snd (net (PostFeedback (handleRating_body (the (memory_id res)) r)) w))"

section \<open>The feedback recorder behind /api/feedback\<close>

text \<open>
  The backend that stores feedback is not among the sources: only its callers (the
  components above) are. Its operations are written here from the specification's
  contract \<open>upsertFeedback(cacheEntryId, fields)\<close>, \<open>clearFeedback(cacheEntryId)\<close>
  and its REST surface.
\<close>

text \<open>Modelled from the spec: the store of the absent backend, one feedback record per
  cache entry ("identity keyed by QueryCacheEntry id (one-to-one)").\<close>

type_synonym feedback_store = "int \<Rightarrow> feedback option"

text \<open>Modelled from the spec: the error of the absent backend for a malformed payload,
  "ValidationError".\<close>

datatype api_error = ValidationError

text \<open>Modelled from the spec: the merge rule of the absent \<open>upsertFeedback\<close>, "unset
  fields in the request leave existing stored values unchanged (partial update)". A
  field is unset when the request leaves it out or sends null for it; a field sent
  with a value is set to it. (The specification's explicit clear operations are
  requests of another kind, which it does not describe and no component sends.)\<close>

definition merge_field :: "'a option \<Rightarrow> 'a field \<Rightarrow> 'a option" where
  "merge_field stored f = (case f of Absent \<Rightarrow> stored | Null \<Rightarrow> stored | Value v \<Rightarrow> Some v)"

text \<open>Modelled from the spec: the same merge rule of the absent \<open>upsertFeedback\<close> for the
  favourite flag.\<close>

definition merge_flag :: "bool \<Rightarrow> bool field \<Rightarrow> bool" where
  "merge_flag stored f = (case f of Absent \<Rightarrow> stored | Null \<Rightarrow> stored | Value v \<Rightarrow> v)"

text \<open>Modelled from the spec: the validation of the absent backend, "malformed feedback
  payload (e.g., rating outside 1-5); rejected synchronously, not persisted".\<close>

definition valid_rating :: "int field \<Rightarrow> bool" where
  "valid_rating f = (case f of Value v \<Rightarrow> 1 \<le> v \<and> v \<le> 5 | _ \<Rightarrow> True)"

text \<open>Modelled from the spec: the validation of a whole payload by the absent backend: the
  legacy rating and the three categorical ratings are each "1-5".\<close>

definition valid_fields :: "'a feedback_fields_scheme \<Rightarrow> bool" where
  "valid_fields flds =
     (valid_rating (req_rating flds) \<and> valid_rating (req_accuracy_rating flds)
      \<and> valid_rating (req_comprehensiveness_rating flds)
      \<and> valid_rating (req_helpfulness_rating flds))"

text \<open>Modelled from the spec: the record of the absent backend for a cache entry that
  has no feedback yet, every attribute unset.\<close>

definition blank_feedback :: feedback where
  "blank_feedback =
     \<lparr>fb_rating = None, fb_accuracy_rating = None, fb_comprehensiveness_rating = None,
      fb_helpfulness_rating = None, fb_feedback_text = None, fb_is_favorite = False\<rparr>"

text \<open>Modelled from the spec: the merge of the absent \<open>upsertFeedback\<close> over the whole
  record, attribute by attribute.\<close>

definition merge_feedback :: "feedback \<Rightarrow> 'a feedback_fields_scheme \<Rightarrow> feedback" where
  "merge_feedback stored flds =
     \<lparr>fb_rating = merge_field (fb_rating stored) (req_rating flds),
      fb_accuracy_rating = merge_field (fb_accuracy_rating stored) (req_accuracy_rating flds),
      fb_comprehensiveness_rating =
        merge_field (fb_comprehensiveness_rating stored) (req_comprehensiveness_rating flds),
      fb_helpfulness_rating =
        merge_field (fb_helpfulness_rating stored) (req_helpfulness_rating flds),
      fb_feedback_text = merge_field (fb_feedback_text stored) (req_feedback_text flds),
      fb_is_favorite = merge_flag (fb_is_favorite stored) (req_is_favorite flds)\<rparr>"

text \<open>Modelled from the spec: the emptiness test of the absent backend, "at least one of
  {any rating, comment, favorite=true} must hold for a non-empty feedback record".\<close>

definition all_cleared :: "feedback \<Rightarrow> bool" where
  "all_cleared f =
     (fb_rating f = None \<and> fb_accuracy_rating f = None
      \<and> fb_comprehensiveness_rating f = None \<and> fb_helpfulness_rating f = None
      \<and> fb_feedback_text f = None \<and> \<not> fb_is_favorite f)"

text \<open>Modelled from the spec: the absent \<open>upsertFeedback(cacheEntryId, fields)\<close>, a
  merge into the stored record; "a record with all fields cleared is deleted, not
  retained empty"; an invalid payload is rejected and nothing is stored.\<close>

definition upsertFeedback ::
  "feedback_store \<Rightarrow> int \<Rightarrow> 'a feedback_fields_scheme \<Rightarrow> api_error + feedback_store" where
  "upsertFeedback store cacheEntryId flds =
     (if \<not> valid_fields flds then Inl ValidationError
      else
        (let stored = (case store cacheEntryId of None \<Rightarrow> blank_feedback | Some f \<Rightarrow> f);
             merged = merge_feedback stored flds
         in Inr (if all_cleared merged then store(cacheEntryId := None)
                 else store(cacheEntryId \<mapsto> merged))))"

text \<open>Modelled from the spec: the absent \<open>clearFeedback(cacheEntryId)\<close>, "clearing all
  feedback removes the record entirely".\<close>

definition clearFeedback :: "feedback_store \<Rightarrow> int \<Rightarrow> feedback_store" where
  "clearFeedback store cacheEntryId = store(cacheEntryId := None)"

text \<open>Modelled from the spec: the answer of the absent backend to a request it accepts,
  "200 on success", with \<open>{status, feedback}\<close> as the body.\<close>

definition api_ok :: "feedback option \<Rightarrow> feedback_data fetch_outcome" where
  "api_ok fb =
     Resolved \<lparr>ok = True, status = 200,
               json = JsonData \<lparr>data_status = ''success'', data_feedback = fb\<rparr>\<rparr>"

text \<open>Modelled from the spec: the answer of the absent backend to a request it rejects or
  cannot serve ("404-equivalent when none exists"): a status that is not ok. The
  specification fixes no number for a rejected payload; 422 stands for it.\<close>

definition api_rejected :: "nat \<Rightarrow> feedback_data fetch_outcome" where
  "api_rejected code =
     Resolved \<lparr>ok = False, status = code,
               json = JsonData \<lparr>data_status = ''error'', data_feedback = None\<rparr>\<rparr>"

text \<open>Modelled from the spec: the REST surface of the absent backend. POST /api/feedback
  is \<open>upsertFeedback\<close> for the entry named by \<open>memory_id\<close>; GET answers the stored
  feedback, or not ok when none exists; DELETE is \<open>clearFeedback\<close>.\<close>

fun serve :: "feedback_store net" where
  "serve (PostFeedback b) store =
     (case req_memory_id b of
        None \<Rightarrow> (api_rejected 422, store)
      | Some i \<Rightarrow>
          (case upsertFeedback store i b of
             Inl e \<Rightarrow> (api_rejected 422, store)
           | Inr store' \<Rightarrow> (api_ok None, store')))"
| "serve (GetFeedback i) store =
     (case store i of
        None \<Rightarrow> (api_rejected 404, store)
      | Some f \<Rightarrow> (api_ok (Some f), store))"
| "serve (DeleteFeedback m) store =
     (case m of
        None \<Rightarrow> (api_rejected 422, store)
      | Some i \<Rightarrow> (api_ok None, clearFeedback store i))"

text \<open>The stored value of each attribute of a cache entry; an entry without a record
  has none.\<close>

definition stored_feedback :: "feedback_store \<Rightarrow> int \<Rightarrow> feedback" where
  "stored_feedback store i = (case store i of None \<Rightarrow> blank_feedback | Some f \<Rightarrow> f)"

section \<open>The stores that the components can produce\<close>

text \<open>A feedback record is non-empty when a rating is set, the comment is set and not
  blank, or it is a favourite.\<close>

definition nonempty_feedback :: "feedback \<Rightarrow> bool" where
  "nonempty_feedback f =
     (fb_rating f \<noteq> None \<or> fb_accuracy_rating f \<noteq> None
      \<or> fb_comprehensiveness_rating f \<noteq> None \<or> fb_helpfulness_rating f \<noteq> None
      \<or> (case fb_feedback_text f of None \<Rightarrow> False | Some t \<Rightarrow> trim t \<noteq> [])
      \<or> fb_is_favorite f)"

text \<open>The stores reached from the empty one by the actions of the components and of
  the view, in any component state, run against the recorder.\<close>

inductive_set client_reachable :: "feedback_store set" where
  start: "Map.empty \<in> client_reachable"
| toggle:
    "store \<in> client_reachable
     \<Longrightarrow> fst (toggleFavorite serve store (this :: result_actions)) \<in> client_reachable"
| submit:
    "store \<in> client_reachable
     \<Longrightarrow> fst (submitFeedback serve store this) \<in> client_reachable"
| submit_legacy:
    "store \<in> client_reachable
     \<Longrightarrow> fst (submitFeedback_legacy serve store (old :: result_actions_legacy))
           \<in> client_reachable"
| clear_all:
    "store \<in> client_reachable
     \<Longrightarrow> fst (clearAllFeedback confirmed serve store this) \<in> client_reachable"
| rate:
    "store \<in> client_reachable
     \<Longrightarrow> handleRating serve store (res :: (unit, unit) query_response option) r
           \<in> client_reachable"

text \<open>The invariant used to prove it: no stored record is all cleared, and a stored comment
  is not blank. A request keeps it when its comment, if it sends one, is not blank.\<close>

definition well_stored :: "feedback \<Rightarrow> bool" where
  "well_stored f =
     (\<not> all_cleared f
      \<and> (case fb_feedback_text f of None \<Rightarrow> True | Some t \<Rightarrow> trim t \<noteq> []))"

definition store_inv :: "feedback_store \<Rightarrow> bool" where
  "store_inv store = (\<forall>i f. store i = Some f \<longrightarrow> well_stored f)"

definition comment_ok :: "'a feedback_fields_scheme \<Rightarrow> bool" where
  "comment_ok flds = (case req_feedback_text flds of Value t \<Rightarrow> trim t \<noteq> [] | _ \<Rightarrow> True)"

section \<open>The database scripts\<close>

text \<open>
  A column that may be NULL holds an \<open>option\<close>. A statement either changes the table
  or fails with an error and leaves it as it was.
\<close>

datatype sql_error =
    NotNullViolation | CheckViolation | ForeignKeyViolation | StringTooLong
  | UndefinedColumn

subsection \<open>add\_multiple\_ratings.sql: the rating columns of user\_feedback\<close>

text \<open>
  \<^verbatim>\<open>ALTER TABLE user_feedback
  ADD COLUMN IF NOT EXISTS accuracy_rating INTEGER CHECK (accuracy_rating BETWEEN 1 AND 5),
  ADD COLUMN IF NOT EXISTS comprehensiveness_rating INTEGER CHECK (... BETWEEN 1 AND 5),
  ADD COLUMN IF NOT EXISTS helpfulness_rating INTEGER CHECK (... BETWEEN 1 AND 5);\<close>

  The table itself is created elsewhere, so what it looks like when the script runs
  is not fixed: it may or may not have each of the three columns already, with or
  without a range check. Of its other columns only \<open>updated_at\<close>, which the trigger
  of this script writes, is named; the rest is \<open>'o\<close>.
\<close>

datatype rating_column = Accuracy_rating | Comprehensiveness_rating | Helpfulness_rating

record 'o user_feedback_row =
  updated_at :: nat
  other_columns :: 'o
  accuracy_rating :: "int option"
  comprehensiveness_rating :: "int option"
  helpfulness_rating :: "int option"

fun column_value :: "rating_column \<Rightarrow> 'o user_feedback_row \<Rightarrow> int option" where
  "column_value Accuracy_rating r = accuracy_rating r"
| "column_value Comprehensiveness_rating r = comprehensiveness_rating r"
| "column_value Helpfulness_rating r = helpfulness_rating r"

fun null_column :: "rating_column \<Rightarrow> 'o user_feedback_row \<Rightarrow> 'o user_feedback_row" where
  "null_column Accuracy_rating r = r\<lparr>accuracy_rating := None\<rparr>"
| "null_column Comprehensiveness_rating r = r\<lparr>comprehensiveness_rating := None\<rparr>"
| "null_column Helpfulness_rating r = r\<lparr>helpfulness_rating := None\<rparr>"

text \<open>
  The table: which of the three columns it has, which of them carry the constraint
  \<^verbatim>\<open>CHECK (c BETWEEN 1 AND 5)\<close>, and its rows. A row holds NULL in a column that
  the table does not have.
\<close>

record 'o user_feedback_table =
  rating_columns :: "rating_column set"
  range_checked :: "rating_column set"
  table_rows :: "'o user_feedback_row list"

text \<open>A CHECK constraint is satisfied when its expression is true or NULL.\<close>

definition between_1_and_5 :: "int option \<Rightarrow> bool" where
  "between_1_and_5 v = (case v of None \<Rightarrow> True | Some x \<Rightarrow> 1 \<le> x \<and> x \<le> 5)"

definition all_rating_columns :: "rating_column list" where
  "all_rating_columns = [Accuracy_rating, Comprehensiveness_rating, Helpfulness_rating]"

definition rating_checks :: "'o user_feedback_table \<Rightarrow> 'o user_feedback_row \<Rightarrow> bool" where
  "rating_checks t r =
     list_all (\<lambda>c. c \<in> range_checked t \<longrightarrow> between_1_and_5 (column_value c r))
              all_rating_columns"

text \<open>
  \<^verbatim>\<open>ADD COLUMN IF NOT EXISTS c INTEGER CHECK (c BETWEEN 1 AND 5)\<close>: when the
  table has the column already, the whole clause is skipped, the constraint with it;
  otherwise the column is added with its constraint, and the existing rows get NULL.
\<close>

definition add_column_if_not_exists ::
  "rating_column \<Rightarrow> 'o user_feedback_table \<Rightarrow> 'o user_feedback_table" where
  "add_column_if_not_exists c t =
     (if c \<in> rating_columns t then t
      else t\<lparr>rating_columns := insert c (rating_columns t),
             range_checked := insert c (range_checked t),
             table_rows := map (null_column c) (table_rows t)\<rparr>)"

definition add_multiple_ratings :: "'o user_feedback_table \<Rightarrow> 'o user_feedback_table" where
  "add_multiple_ratings t =
     add_column_if_not_exists Helpfulness_rating
       (add_column_if_not_exists Comprehensiveness_rating
          (add_column_if_not_exists Accuracy_rating t))"

text \<open>
  The statements that write the table. An INSERT or UPDATE that gives a value to a
  column the table does not have is an error. An UPDATE names the rows it changes and
  the new values; the trigger \<^verbatim>\<open>BEFORE UPDATE ... FOR EACH ROW\<close> then sets
  \<^verbatim>\<open>NEW.updated_at = CURRENT_TIMESTAMP\<close>, and the constraints are checked on the
  row that results. Constraints of the other columns are not known here and are not
  modelled; they can only make more statements fail.
\<close>

datatype 'o feedback_statement =
    InsertRow "'o user_feedback_row"
  | UpdateRows nat "'o user_feedback_row \<Rightarrow> bool" "'o user_feedback_row \<Rightarrow> 'o user_feedback_row"
  | DeleteRows "'o user_feedback_row \<Rightarrow> bool"

definition update_user_feedback_timestamp ::
  "nat \<Rightarrow> 'o user_feedback_row \<Rightarrow> 'o user_feedback_row" where
  "update_user_feedback_timestamp current_timestamp new = new\<lparr>updated_at := current_timestamp\<rparr>"

definition columns_exist :: "'o user_feedback_table \<Rightarrow> 'o user_feedback_row \<Rightarrow> bool" where
  "columns_exist t r =
     list_all (\<lambda>c. column_value c r \<noteq> None \<longrightarrow> c \<in> rating_columns t) all_rating_columns"

fun run_feedback_statement ::
  "'o feedback_statement \<Rightarrow> 'o user_feedback_table \<Rightarrow> sql_error + 'o user_feedback_table"
where
  "run_feedback_statement (InsertRow r) t =
     (if \<not> columns_exist t r then Inl UndefinedColumn
      else if rating_checks t r then Inr (t\<lparr>table_rows := table_rows t @ [r]\<rparr>)
      else Inl CheckViolation)"
| "run_feedback_statement (UpdateRows now wh set_values) t =
     (let new_rows =
            map (\<lambda>r. if wh r then update_user_feedback_timestamp now (set_values r) else r)
                (table_rows t)
      in if \<not> list_all (columns_exist t) new_rows then Inl UndefinedColumn
         else if list_all (rating_checks t) new_rows then Inr (t\<lparr>table_rows := new_rows\<rparr>)
         else Inl CheckViolation)"
| "run_feedback_statement (DeleteRows wh) t =
     Inr (t\<lparr>table_rows := filter (\<lambda>r. \<not> wh r) (table_rows t)\<rparr>)"

definition exec_feedback_statement ::
  "'o feedback_statement \<Rightarrow> 'o user_feedback_table
     \<Rightarrow> sql_error option \<times> 'o user_feedback_table" where
  "exec_feedback_statement st t =
     (case run_feedback_statement st t of
        Inl e \<Rightarrow> (Some e, t)
      | Inr t' \<Rightarrow> (None, t'))"

fun exec_feedback_statements ::
  "'o feedback_statement list \<Rightarrow> 'o user_feedback_table \<Rightarrow> 'o user_feedback_table"
where
  "exec_feedback_statements [] t = t"
| "exec_feedback_statements (st # sts) t =
     exec_feedback_statements sts (snd (exec_feedback_statement st t))"

text \<open>The invariant for one column: it carries the constraint and every row meets it.\<close>

definition column_inv :: "rating_column \<Rightarrow> 'o user_feedback_table \<Rightarrow> bool" where
  "column_inv c t =
     (c \<in> range_checked t \<and> (\<forall>r \<in> set (table_rows t). between_1_and_5 (column_value c r)))"

subsection \<open>The table retrieval\_evaluations\<close>

text \<open>
  \<^verbatim>\<open>CREATE TABLE IF NOT EXISTS retrieval_evaluations (
    id SERIAL PRIMARY KEY,
    query_id INTEGER REFERENCES query_cache(id) ON DELETE CASCADE,
    chunk_id INTEGER REFERENCES document_chunks(id) ON DELETE CASCADE,
    relevance_score INTEGER CHECK (relevance_score IN (0, 1)) NOT NULL,
    llm_score NUMERIC, explanation TEXT, retrieval_method VARCHAR(50),
    rank_position INTEGER,
    created_at TIMESTAMP WITH TIME ZONE DEFAULT CURRENT_TIMESTAMP);\<close>
  followed by three indexes, none of them unique. \<open>'n\<close> is the type of NUMERIC
  values.
\<close>

record 'n retrieval_evaluation =
  id_column :: nat
  query_id :: "int option"
  chunk_id :: "int option"
  relevance_score :: int
  llm_score :: "'n option"
  explanation :: "string option"
  retrieval_method :: "string option"
  rank_position :: "int option"
  created_at :: nat

text \<open>The values of an INSERT: \<open>id\<close> and \<open>created_at\<close> are left to their
  defaults, the sequence and the clock.\<close>

record 'n evaluation_values =
  v_query_id :: "int option"
  v_chunk_id :: "int option"
  v_relevance_score :: "int option"
  v_llm_score :: "'n option"
  v_explanation :: "string option"
  v_retrieval_method :: "string option"
  v_rank_position :: "int option"

text \<open>The table with its sequence, and the keys of the two tables it references.\<close>

record 'n evaluation_db =
  query_cache_ids :: "int set"
  document_chunk_ids :: "int set"
  retrieval_evaluations :: "'n retrieval_evaluation list"
  id_seq :: nat

definition references_ok :: "int set \<Rightarrow> int option \<Rightarrow> bool" where
  "references_ok keys v = (case v of None \<Rightarrow> True | Some k \<Rightarrow> k \<in> keys)"

definition varchar_ok :: "nat \<Rightarrow> string option \<Rightarrow> bool" where
  "varchar_ok n v = (case v of None \<Rightarrow> True | Some t \<Rightarrow> length t \<le> n)"

text \<open>An INSERT takes the next value of the sequence whether it succeeds or not.\<close>

definition insert_evaluation ::
  "nat \<Rightarrow> 'n evaluation_values \<Rightarrow> 'n evaluation_db \<Rightarrow> sql_error option \<times> 'n evaluation_db"
where
  "insert_evaluation now v db =
     (let new_id = id_seq db + 1;
          db1 = db\<lparr>id_seq := new_id\<rparr>
      in if \<not> varchar_ok 50 (v_retrieval_method v) then (Some StringTooLong, db1)
         else case v_relevance_score v of
                None \<Rightarrow> (Some NotNullViolation, db1)
              | Some score \<Rightarrow>
                  if score \<notin> {0, 1} then (Some CheckViolation, db1)
                  else if \<not> references_ok (query_cache_ids db) (v_query_id v)
                          \<or> \<not> references_ok (document_chunk_ids db) (v_chunk_id v)
                  then (Some ForeignKeyViolation, db1)
                  else (None,
                        db1\<lparr>retrieval_evaluations :=
                              retrieval_evaluations db
                              @ [\<lparr>id_column = new_id, query_id = v_query_id v,
                                   chunk_id = v_chunk_id v, relevance_score = score,
                                   llm_score = v_llm_score v,
                                   explanation = v_explanation v,
                                   retrieval_method = v_retrieval_method v,
                                   rank_position = v_rank_position v,
                                   created_at = now\<rparr>]\<rparr>))"

text \<open>Deleting a referenced row: ON DELETE CASCADE removes the evaluations that point
  to it.\<close>

definition delete_query :: "int \<Rightarrow> 'n evaluation_db \<Rightarrow> 'n evaluation_db" where
  "delete_query q db =
     db\<lparr>query_cache_ids := query_cache_ids db - {q},
        retrieval_evaluations :=
          filter (\<lambda>r. query_id r \<noteq> Some q) (retrieval_evaluations db)\<rparr>"

definition delete_chunk :: "int \<Rightarrow> 'n evaluation_db \<Rightarrow> 'n evaluation_db" where
  "delete_chunk c db =
     db\<lparr>document_chunk_ids := document_chunk_ids db - {c},
        retrieval_evaluations :=
          filter (\<lambda>r. chunk_id r \<noteq> Some c) (retrieval_evaluations db)\<rparr>"

definition delete_evaluations ::
  "('n retrieval_evaluation \<Rightarrow> bool) \<Rightarrow> 'n evaluation_db \<Rightarrow> 'n evaluation_db" where
  "delete_evaluations wh db =
     db\<lparr>retrieval_evaluations := filter (\<lambda>r. \<not> wh r) (retrieval_evaluations db)\<rparr>"

datatype 'n evaluation_statement =
    InsertEvaluation nat "'n evaluation_values"
  | DeleteEvaluations "'n retrieval_evaluation \<Rightarrow> bool"
  | DeleteQuery int
  | DeleteChunk int
  | InsertQuery int
  | InsertChunk int

fun exec_evaluation_statement ::
  "'n evaluation_statement \<Rightarrow> 'n evaluation_db \<Rightarrow> 'n evaluation_db" where
  "exec_evaluation_statement (InsertEvaluation now v) db = snd (insert_evaluation now v db)"
| "exec_evaluation_statement (DeleteEvaluations wh) db = delete_evaluations wh db"
| "exec_evaluation_statement (DeleteQuery q) db = delete_query q db"
| "exec_evaluation_statement (DeleteChunk c) db = delete_chunk c db"
| "exec_evaluation_statement (InsertQuery q) db =
     db\<lparr>query_cache_ids := insert q (query_cache_ids db)\<rparr>"
| "exec_evaluation_statement (InsertChunk c) db =
     db\<lparr>document_chunk_ids := insert c (document_chunk_ids db)\<rparr>"

fun exec_evaluation_statements ::
  "'n evaluation_statement list \<Rightarrow> 'n evaluation_db \<Rightarrow> 'n evaluation_db" where
  "exec_evaluation_statements [] db = db"
| "exec_evaluation_statements (st # sts) db =
     exec_evaluation_statements sts (exec_evaluation_statement st db)"

text \<open>The table right after CREATE TABLE: no rows, the sequence not yet used.\<close>

definition created_db :: "int set \<Rightarrow> int set \<Rightarrow> 'n evaluation_db" where
  "created_db query_keys chunk_keys =
     \<lparr>query_cache_ids = query_keys, document_chunk_ids = chunk_keys,
      retrieval_evaluations = [], id_seq = 0\<rparr>"

text \<open>The property the claim asks for: two different rows of the same query and method
  never have the same rank position.\<close>

definition rank_unique :: "'n retrieval_evaluation list \<Rightarrow> bool" where
  "rank_unique rows =
     (\<forall>r1 \<in> set rows. \<forall>r2 \<in> set rows.
        r1 \<noteq> r2 \<and> query_id r1 = query_id r2 \<and> retrieval_method r1 = retrieval_method r2
        \<longrightarrow> rank_position r1 \<noteq> rank_position r2)"

text \<open>The invariant of the table: the ids are distinct and were given out by the
  sequence, and every relevance score is 0 or 1.\<close>

definition evaluation_inv :: "'n evaluation_db \<Rightarrow> bool" where
  "evaluation_inv db =
     (distinct (map id_column (retrieval_evaluations db))
      \<and> (\<forall>r \<in> set (retrieval_evaluations db).
            id_column r \<le> id_seq db \<and> (relevance_score r = 0 \<or> relevance_score r = 1)))"

section \<open>Properties of submitQuery\<close>

lemmas store_defs =
  submitQuery_def submitQuery_steps_def setQuery_def setResults_def setLoading_def
  setError_def

text \<open>
  C10 (counterexample). The claim says that results is replaced and error stays null
  whenever the fetch succeeds. With a response whose status is ok but whose body does
  not parse, \<^verbatim>\<open>response.json()\<close> throws inside the \<^verbatim>\<open>try\<close>: the
  earlier results stay and error is set.
\<close>

theorem submitQuery_ok_body_unparsed_counterexample:
  "results (submitQuery
      (\<lambda>_. Resolved \<lparr>ok = True, status = 200, json = JsonThrows ''Unexpected token''\<rparr>)
      (initial_state\<lparr>results := Some (1::nat)\<rparr>) ''q'') = Some 1
   \<and> error (submitQuery
      (\<lambda>_. Resolved \<lparr>ok = True, status = 200, json = JsonThrows ''Unexpected token''\<rparr>)
      (initial_state\<lparr>results := Some (1::nat)\<rparr>) ''q'') = Some ''Unexpected token''"
  by (simp add: store_defs initial_state_def)

lemma submitQuery_steps_shape:
  "\<exists>c. submitQuery_steps fetch q =
     [Commit (SetLoading True), Commit (SetError None), Commit (SetQuery q),
      Fetch (submitQuery_request q), Commit c, Commit (SetLoading False)]
     \<and> c = (case fetch (submitQuery_request q) of
              FetchThrows msg \<Rightarrow> SetError (Some msg)
            | Resolved resp \<Rightarrow>
                if \<not> ok resp
                then SetError (Some (''API error: '' @ string_of_nat (status resp)))
                else (case json resp of
                        JsonThrows msg \<Rightarrow> SetError (Some msg)
                      | JsonData data \<Rightarrow> SetResults (Some data)))"
  by (simp add: submitQuery_steps_def split: fetch_outcome.splits json_outcome.splits)

lemma submitQuery_final:
  "submitQuery fetch st q =
     (case fetch (submitQuery_request q) of
        FetchThrows msg \<Rightarrow> st\<lparr>query := q, loading := False, error := Some msg\<rparr>
      | Resolved resp \<Rightarrow>
          if \<not> ok resp
          then st\<lparr>query := q, loading := False,
                  error := Some (''API error: '' @ string_of_nat (status resp))\<rparr>
          else (case json resp of
                  JsonThrows msg \<Rightarrow> st\<lparr>query := q, loading := False, error := Some msg\<rparr>
                | JsonData data \<Rightarrow>
                    st\<lparr>query := q, results := Some data, loading := False, error := None\<rparr>))"
  by (simp add: store_defs split: fetch_outcome.splits json_outcome.splits)

text \<open>
  C10 (amended). For every query submission, the action first commits loading and a
  null error, and sends one request, to \<open>/api/query\<close> with the body
  \<open>{query, max_results: 5, use_memory: true}\<close>; while the request is out, loading
  is set, error is null and results is what it was. If the fetch throws, the HTTP
  response is not ok, or reading the JSON body of an ok response throws, the
  previously stored results value is left unchanged and error is set to the message;
  if the response is ok and its body parses, results is replaced and error stays null.
  In every case the last commit clears loading, and loading is false after the action.
\<close>

theorem submitQuery_atomic:
  "submitQuery fetch st q = foldl run_step st (submitQuery_steps fetch q)
   \<and> take 4 (submitQuery_steps fetch q) =
       [Commit (SetLoading True), Commit (SetError None), Commit (SetQuery q),
        Fetch \<lparr>url = ''/api/query'', http_method = ''POST'',
               headers = [(''Content-Type'', ''application/json'')],
               body = \<lparr>body_query = q, max_results = 5, use_memory = True\<rparr>\<rparr>]
   \<and> fetches (submitQuery_steps fetch q) = [submitQuery_request q]
   \<and> loading (foldl run_step st (take 3 (submitQuery_steps fetch q)))
   \<and> error (foldl run_step st (take 3 (submitQuery_steps fetch q))) = None
   \<and> results (foldl run_step st (take 3 (submitQuery_steps fetch q))) = results st
   \<and> last (submitQuery_steps fetch q) = Commit (SetLoading False)
   \<and> \<not> loading (submitQuery fetch st q)
   \<and> query (submitQuery fetch st q) = q
   \<and> (\<forall>msg. fetch (submitQuery_request q) = FetchThrows msg \<longrightarrow>
        results (submitQuery fetch st q) = results st
        \<and> error (submitQuery fetch st q) = Some msg)
   \<and> (\<forall>resp. fetch (submitQuery_request q) = Resolved resp \<and> \<not> ok resp \<longrightarrow>
        results (submitQuery fetch st q) = results st
        \<and> error (submitQuery fetch st q)
            = Some (''API error: '' @ string_of_nat (status resp)))
   \<and> (\<forall>resp msg. fetch (submitQuery_request q) = Resolved resp \<and> ok resp
          \<and> json resp = JsonThrows msg \<longrightarrow>
        results (submitQuery fetch st q) = results st
        \<and> error (submitQuery fetch st q) = Some msg)
   \<and> (\<forall>resp data. fetch (submitQuery_request q) = Resolved resp \<and> ok resp
          \<and> json resp = JsonData data \<longrightarrow>
        results (submitQuery fetch st q) = Some data
        \<and> error (submitQuery fetch st q) = None)"
proof -
  obtain c where steps: "submitQuery_steps fetch q =
     [Commit (SetLoading True), Commit (SetError None), Commit (SetQuery q),
      Fetch (submitQuery_request q), Commit c, Commit (SetLoading False)]"
    using submitQuery_steps_shape [of fetch q] by blast
  have trace: "take 4 (submitQuery_steps fetch q) =
       [Commit (SetLoading True), Commit (SetError None), Commit (SetQuery q),
        Fetch \<lparr>url = ''/api/query'', http_method = ''POST'',
               headers = [(''Content-Type'', ''application/json'')],
               body = \<lparr>body_query = q, max_results = 5, use_memory = True\<rparr>\<rparr>]"
    "fetches (submitQuery_steps fetch q) = [submitQuery_request q]"
    "last (submitQuery_steps fetch q) = Commit (SetLoading False)"
    by (simp_all add: steps submitQuery_request_def)
  have before: "loading (foldl run_step st (take 3 (submitQuery_steps fetch q)))"
    "error (foldl run_step st (take 3 (submitQuery_steps fetch q))) = None"
    "results (foldl run_step st (take 3 (submitQuery_steps fetch q))) = results st"
    by (simp_all add: steps setQuery_def setError_def setLoading_def)
  have final: "\<not> loading (submitQuery fetch st q)" "query (submitQuery fetch st q) = q"
    by (simp_all add: submitQuery_final split: fetch_outcome.splits json_outcome.splits)
  have cases:
    "\<forall>msg. fetch (submitQuery_request q) = FetchThrows msg \<longrightarrow>
        results (submitQuery fetch st q) = results st
        \<and> error (submitQuery fetch st q) = Some msg"
    "\<forall>resp. fetch (submitQuery_request q) = Resolved resp \<and> \<not> ok resp \<longrightarrow>
        results (submitQuery fetch st q) = results st
        \<and> error (submitQuery fetch st q)
            = Some (''API error: '' @ string_of_nat (status resp))"
    "\<forall>resp msg. fetch (submitQuery_request q) = Resolved resp \<and> ok resp
          \<and> json resp = JsonThrows msg \<longrightarrow>
        results (submitQuery fetch st q) = results st
        \<and> error (submitQuery fetch st q) = Some msg"
    "\<forall>resp data. fetch (submitQuery_request q) = Resolved resp \<and> ok resp
          \<and> json resp = JsonData data \<longrightarrow>
        results (submitQuery fetch st q) = Some data
        \<and> error (submitQuery fetch st q) = None"
    by (simp_all add: submitQuery_final)
  show ?thesis
    by (intro conjI trace before final cases) (simp add: submitQuery_def)
qed

theorem submitQuery_atomic_witness:
  "results (submitQuery (\<lambda>_. FetchThrows ''Failed to fetch'')
      (initial_state\<lparr>results := Some (1::nat)\<rparr>) ''q'') = Some 1
   \<and> error (submitQuery (\<lambda>_. FetchThrows ''Failed to fetch'')
      (initial_state\<lparr>results := Some (1::nat)\<rparr>) ''q'') = Some ''Failed to fetch''
   \<and> results (submitQuery
      (\<lambda>_. Resolved \<lparr>ok = True, status = 200, json = JsonData 2\<rparr>)
      (initial_state\<lparr>results := Some (1::nat)\<rparr>) ''q'') = Some 2
   \<and> error (submitQuery
      (\<lambda>_. Resolved \<lparr>ok = True, status = 200, json = JsonData 2\<rparr>)
      (initial_state\<lparr>results := Some (1::nat), error := Some ''old''\<rparr>) ''q'') = None
   \<and> results (submitQuery
      (\<lambda>_. Resolved \<lparr>ok = False, status = 500, json = JsonData 2\<rparr>)
      (initial_state\<lparr>results := Some (1::nat)\<rparr>) ''q'') = Some 1
   \<and> error (submitQuery
      (\<lambda>_. Resolved \<lparr>ok = False, status = 500, json = JsonData 2\<rparr>)
      (initial_state\<lparr>results := Some (1::nat)\<rparr>) ''q'') = Some ''API error: 500''
   \<and> error (submitQuery
      (\<lambda>_. Resolved \<lparr>ok = True, status = 200, json = JsonThrows ''Unexpected token''\<rparr>)
      (initial_state\<lparr>results := Some (1::nat)\<rparr>) ''q'') = Some ''Unexpected token''"
proof -
  let ?st = "initial_state\<lparr>results := Some (1::nat)\<rparr>"
  let ?st' = "initial_state\<lparr>results := Some (1::nat), error := Some ''old''\<rparr>"
  let ?down = "\<lambda>_ :: query_body request. FetchThrows ''Failed to fetch'' :: nat fetch_outcome"
  let ?up = "\<lambda>_ :: query_body request.
               Resolved \<lparr>ok = True, status = 200, json = JsonData (2::nat)\<rparr>"
  note D = submitQuery_atomic [of ?down ?st "''q''", THEN conjunct2]
  note U = submitQuery_atomic [of ?up ?st "''q''", THEN conjunct2]
  note U' = submitQuery_atomic [of ?up ?st' "''q''", THEN conjunct2]
  have 1: "results (submitQuery ?down ?st ''q'') = results ?st
      \<and> error (submitQuery ?down ?st ''q'') = Some ''Failed to fetch''"
    using D by simp
  have 2: "results (submitQuery ?up ?st ''q'') = Some 2"
    using U by simp
  have 3: "error (submitQuery ?up ?st' ''q'') = None"
    using U' by simp
  let ?refused = "\<lambda>_ :: query_body request.
               Resolved \<lparr>ok = False, status = 500, json = JsonData (2::nat)\<rparr>"
  let ?garbled = "\<lambda>_ :: query_body request.
               Resolved \<lparr>ok = True, status = 200,
                         json = JsonThrows ''Unexpected token'' :: nat json_outcome\<rparr>"
  note R = submitQuery_atomic [of ?refused ?st "''q''", THEN conjunct2]
  note G = submitQuery_atomic [of ?garbled ?st "''q''", THEN conjunct2]
  have n: "string_of_nat 500 = ''500''" by code_simp
  have 4: "results (submitQuery ?refused ?st ''q'') = results ?st
      \<and> error (submitQuery ?refused ?st ''q'') = Some ''API error: 500''"
    using R n by simp
  have 5: "error (submitQuery ?garbled ?st ''q'') = Some ''Unexpected token''"
    using G by simp
  from 1 2 3 4 5 show ?thesis by simp
qed

section \<open>Properties of formatAnswer and of the chunk cards\<close>

lemma no_open_bracket_inside:
  assumes "\<forall>c \<in> set ds. isDigit c"
  shows "CHR ''['' \<notin> set (''chunk'' @ ds @ '']'')"
  using assms not_digit_bracket(2) by auto

lemma match_citation_extend:
  "match_citation s = Some (ds, r) \<Longrightarrow> match_citation (s @ t) = Some (ds, r @ t)"
  by (simp add: match_citation_iff)

lemma match_citation_none_extend:
  assumes none: "match_citation (c # cs) = None"
    and post: "match_citation post = Some (ds, rest)"
  shows "match_citation (c # cs @ post) = None"
proof (rule ccontr)
  assume "match_citation (c # cs @ post) \<noteq> None"
  then obtain ds' rest' where m: "match_citation (c # cs @ post) = Some (ds', rest')"
    by auto
  define T where "T = ''[chunk'' @ ds' @ '']''"
  from m have eq: "(c # cs) @ post = T @ rest'"
    and ne: "ds' \<noteq> []" and dg: "\<forall>c \<in> set ds'. isDigit c"
    by (simp_all add: match_citation_iff T_def)
  from post obtain p where p: "post = CHR ''['' # p"
    by (auto simp: match_citation_iff)
  from eq obtain u where
    "(c # cs = T @ u \<and> u @ post = rest') \<or> ((c # cs) @ u = T \<and> post = u @ rest')"
    unfolding append_eq_append_conv2 by blast
  then consider u where "c # cs = T @ u"
    | u where "(c # cs) @ u = T" "post = u @ rest'" "u \<noteq> []"
    by (cases "u = []") auto
  then show False
  proof cases
    case 1
    with ne dg have "match_citation (c # cs) = Some (ds', u)"
      by (simp add: match_citation_iff T_def)
    with none show False by simp
  next
    case 2
    from 2(2,3) p have "hd u = CHR ''[''" by (cases u) auto
    with 2(3) have "CHR ''['' \<in> set u" by (cases u) auto
    moreover from 2(1) have "cs @ u = ''chunk'' @ ds' @ '']''" by (simp add: T_def)
    then have "set u \<subseteq> set (''chunk'' @ ds' @ '']'')"
      by (metis set_append sup_ge2)
    ultimately show False using no_open_bracket_inside [OF dg] by blast
  qed
qed

lemma segments_append_match:
  assumes post: "match_citation post = Some (ds, rest)"
  shows "segments (pre @ post) = segments pre @ segments post"
proof (induction pre rule: segments.induct)
  case 1
  show ?case by simp
next
  case (2 c cs)
  show ?case
  proof (cases "match_citation (c # cs)")
    case None
    with 2(1) [OF None] match_citation_none_extend [OF None post]
    show ?thesis by simp
  next
    case (Some a)
    obtain ds' r where a: "a = (ds', r)" by (cases a)
    with Some have m: "match_citation (c # cs) = Some (ds', r)" by simp
    from match_citation_extend [OF m, of post]
    have "match_citation (c # cs @ post) = Some (ds', r @ post)" by simp
    with m 2(2) [OF m refl] show ?thesis by simp
  qed
qed

lemma segments_citation_digits:
  "Citation ds \<in> set (segments s) \<Longrightarrow> ds \<noteq> [] \<and> (\<forall>c \<in> set ds. isDigit c)"
proof (induction s rule: segments.induct)
  case 1
  then show ?case by simp
next
  case (2 c cs)
  show ?case
  proof (cases "match_citation (c # cs)")
    case None
    with 2(1,3) show ?thesis by simp
  next
    case (Some a)
    obtain ds' r where a: "a = (ds', r)" by (cases a)
    with Some have m: "match_citation (c # cs) = Some (ds', r)" by simp
    with 2(3) have "ds = ds' \<or> Citation ds \<in> set (segments r)" by simp
    then show ?thesis
    proof
      assume "ds = ds'"
      with m show ?thesis by (simp add: match_citation_iff)
    next
      assume "Citation ds \<in> set (segments r)"
      with 2(2) [OF m refl] show ?thesis by simp
    qed
  qed
qed

lemma segments_token:
  assumes "ds \<noteq> []" "\<forall>c \<in> set ds. isDigit c"
  shows "segments (pre @ ''[chunk'' @ ds @ '']'' @ rest) = segments pre @ Citation ds # segments rest"
proof -
  have m: "match_citation (''[chunk'' @ ds @ '']'' @ rest) = Some (ds, rest)"
    using assms by (simp add: match_citation_iff)
  then have "segments (''[chunk'' @ ds @ '']'' @ rest) = Citation ds # segments rest"
    by simp
  with segments_append_match [OF m, of pre] show ?thesis by simp
qed

lemma segments_no_match:
  "(\<forall>pre post. s = pre @ post \<longrightarrow> match_citation post = None) \<Longrightarrow> segments s = map Plain s"
proof (induction s)
  case Nil
  show ?case by simp
next
  case (Cons c cs)
  from Cons.prems have here: "match_citation (c # cs) = None" by blast
  have "\<forall>pre post. cs = pre @ post \<longrightarrow> match_citation post = None"
  proof (intro allI impI)
    fix pre post assume "cs = pre @ post"
    then have "c # cs = (c # pre) @ post" by simp
    with Cons.prems show "match_citation post = None" by blast
  qed
  with Cons.IH here show ?case by simp
qed

lemma render_map_Plain: "concat (map (render \<circ> Plain) s) = s"
  by (induction s) auto



lemma upt_mem: "k \<in> set [1..<Suc n] \<longleftrightarrow> 1 \<le> k \<and> k \<le> n"
  by (simp only: set_upt atLeastLessThan_iff less_Suc_eq_le)


lemma permitted_iff:
  "permitted n ds \<longleftrightarrow> (\<exists>k. 1 \<le> k \<and> k \<le> n \<and> ds = string_of_nat k)"
proof -
  have "permitted n ds \<longleftrightarrow> (\<exists>k. k \<in> set [1..<Suc n] \<and> ds = string_of_nat k)"
    unfolding permitted_def set_map image_iff by blast
  then show ?thesis unfolding upt_mem by blast
qed













lemma match_citation_starts:
  "match_citation s = Some (ds, rest) \<Longrightarrow> hd s = CHR ''['' \<and> s \<noteq> []"
  by (auto simp: match_citation_iff)

lemma segments_plain_prefix:
  "CHR ''['' \<notin> set pre \<Longrightarrow> segments (pre @ s) = map Plain pre @ segments s"
proof (induction pre)
  case Nil
  show ?case by simp
next
  case (Cons c pre)
  have "match_citation (c # pre @ s) = None"
  proof (cases "match_citation (c # pre @ s)")
    case (Some a)
    then obtain ds rest where "match_citation (c # pre @ s) = Some (ds, rest)"
      by (cases a) simp
    from match_citation_starts [OF this] Cons.prems show ?thesis by simp
  qed simp
  with Cons show ?case by simp
qed

lemma match_citation_none_suffix:
  assumes none: "match_citation (c # cs) = None"
    and post: "post \<noteq> []" "hd post \<notin> set ''chunk]''" "\<not> isDigit (hd post)"
  shows "match_citation (c # cs @ post) = None"
proof (rule ccontr)
  assume "match_citation (c # cs @ post) \<noteq> None"
  then obtain ds' rest' where m: "match_citation (c # cs @ post) = Some (ds', rest')"
    by auto
  define T where "T = ''[chunk'' @ ds' @ '']''"
  from m have eq: "(c # cs) @ post = T @ rest'"
    and ne: "ds' \<noteq> []" and dg: "\<forall>c \<in> set ds'. isDigit c"
    by (simp_all add: match_citation_iff T_def)
  from eq obtain u where
    "(c # cs = T @ u \<and> u @ post = rest') \<or> ((c # cs) @ u = T \<and> post = u @ rest')"
    unfolding append_eq_append_conv2 by blast
  then consider u where "c # cs = T @ u"
    | u where "(c # cs) @ u = T" "post = u @ rest'" "u \<noteq> []"
    by (cases "u = []") auto
  then show False
  proof cases
    case 1
    with ne dg have "match_citation (c # cs) = Some (ds', u)"
      by (simp add: match_citation_iff T_def)
    with none show False by simp
  next
    case 2
    from 2(2,3) have "hd post = hd u" by (cases u) auto
    with 2(3) have "hd post \<in> set u" by (cases u) auto
    moreover from 2(1) have "cs @ u = ''chunk'' @ ds' @ '']''" by (simp add: T_def)
    then have "set u \<subseteq> set (''chunk'' @ ds' @ '']'')"
      by (metis set_append sup_ge2)
    ultimately have "hd post \<in> set ''chunk]'' \<or> hd post \<in> set ds'" by auto
    with post dg show False by blast
  qed
qed

lemma segments_plain_suffix:
  assumes "CHR ''['' \<notin> set post"
    and "post = [] \<or> (hd post \<notin> set ''chunk]'' \<and> \<not> isDigit (hd post))"
  shows "segments (s @ post) = segments s @ map Plain post"
proof (induction s rule: segments.induct)
  case 1
  from segments_plain_prefix [OF assms(1), of "[]"] show ?case by simp
next
  case (2 c cs)
  show ?case
  proof (cases "match_citation (c # cs)")
    case None
    have "match_citation (c # cs @ post) = None"
    proof (cases "post = []")
      case True
      with None show ?thesis by simp
    next
      case False
      with assms(2) match_citation_none_suffix [OF None] show ?thesis by blast
    qed
    with None 2(1) [OF None] show ?thesis by simp
  next
    case (Some a)
    obtain ds r where a: "a = (ds, r)" by (cases a)
    with Some have m: "match_citation (c # cs) = Some (ds, r)" by simp
    from match_citation_extend [OF m, of post]
    have "match_citation (c # cs @ post) = Some (ds, r @ post)" by simp
    with m 2(2) [OF m refl] show ?thesis by simp
  qed
qed

lemma replace_citations_wrapped:
  assumes "CHR ''['' \<notin> set pre" "CHR ''['' \<notin> set post"
    and "post = [] \<or> (hd post \<notin> set ''chunk]'' \<and> \<not> isDigit (hd post))"
  shows "replace_citations (pre @ s @ post) = pre @ replace_citations s @ post"
  using segments_plain_prefix [OF assms(1), of "s @ post"]
    segments_plain_suffix [OF assms(2,3), of s]
  by (simp add: replace_citations_def render_map_Plain)


lemma no_token_no_match:
  assumes "\<forall>pre ds rest. s = pre @ ''[chunk'' @ ds @ '']'' @ rest \<longrightarrow>
             ds = [] \<or> (\<exists>c \<in> set ds. c \<notin> set ''0123456789'')"
  shows "\<forall>pre post. s = pre @ post \<longrightarrow> match_citation post = None"
proof (intro allI impI)
  fix pre post assume s: "s = pre @ post"
  show "match_citation post = None"
  proof (cases "match_citation post")
    case (Some a)
    obtain ds rest where "a = (ds, rest)" by (cases a)
    with Some have "post = ''[chunk'' @ ds @ '']'' @ rest" "ds \<noteq> []"
      "\<forall>c \<in> set ds. c \<in> set ''0123456789''"
      by (simp_all add: match_citation_iff isDigit_def)
    with s assms show ?thesis by blast
  qed simp
qed

text \<open>
  C2 (counterexample). The answer \<open>See [chunk1](https://example.org).\<close> has the token
  \<open>[chunk1]\<close>, but formatAnswer hands the answer to the markdown renderer first, and
  markdown reads a bracket followed by a parenthesis as a link: the renderer returns
  \<open><p>See <a href="https://example.org">chunk1</a>.</p>\<close> and a line feed. That text
  has no token left, so the result is that text, without a link to \<open>#chunk-1\<close>. The
  renderer is given here by its value at this answer.
\<close>

theorem formatAnswer_markdown_link_counterexample:
  \<open>Citation ''1'' \<in> set (segments ''See [chunk1](https://example.org).'')
   \<and> formatAnswer
        (id(''See [chunk1](https://example.org).'' :=
              ''<p>See <a href="https://example.org">chunk1</a>.</p>'' @ [CHR 0x0A]))
        ''See [chunk1](https://example.org).''
      = ''<p>See <a href="https://example.org">chunk1</a>.</p>'' @ [CHR 0x0A]
   \<and> citation_targets (''<p>See <a href="https://example.org">chunk1</a>.</p>'' @ [CHR 0x0A])
      = []\<close>
  by code_simp

text \<open>
  C2 (amended). For every answer, formatAnswer first renders the answer with the
  markdown renderer and then, in the rendered text, treats exactly the tokens
  \<open>[chunkN]\<close>, N a non-empty string of decimal digits, as citations: the result is the
  rendered text with each such token, read from left to right, rewritten into the link
  \<open><a href="#chunk-N" ...>[chunkN]</a>\<close> and every other character copied. A rendered
  text with no such token, whatever other brackets it has, is returned unchanged. A
  bracket pattern of the answer is a citation or plain text as the renderer leaves it:
  when the renderer hands the answer through inside a wrapper without brackets (a plain
  paragraph), the result is the wrapper around the answer with exactly its citation
  tokens rewritten.
\<close>

theorem formatAnswer_rewrites_exactly_citations:
  \<open>formatAnswer marked ans = concat (map render (segments (marked ans)))
   \<and> concat (map source_text (segments (marked ans))) = marked ans
   \<and> (\<forall>c. render (Plain c) = [c] \<and> source_text (Plain c) = [c])
   \<and> (\<forall>ds. Citation ds \<in> set (segments (marked ans)) \<longrightarrow>
         ds \<noteq> [] \<and> (\<forall>c \<in> set ds. c \<in> set ''0123456789'')
         \<and> source_text (Citation ds) = ''[chunk'' @ ds @ '']''
         \<and> render (Citation ds) =
             ''<a href="#chunk-'' @ ds
             @ ''" class="chunk-citation-link" onclick="document.getElementById(''
             @ [CHR 0x27] @ ''chunk-'' @ ds @ [CHR 0x27]
             @ '').scrollIntoView({behavior: '' @ [CHR 0x27] @ ''smooth'' @ [CHR 0x27]
             @ ''}); return false;">[chunk'' @ ds @ '']</a>'')
   \<and> (\<forall>pre ds rest.
         marked ans = pre @ ''[chunk'' @ ds @ '']'' @ rest
         \<and> ds \<noteq> [] \<and> (\<forall>c \<in> set ds. c \<in> set ''0123456789'') \<longrightarrow>
         formatAnswer marked ans
           = replace_citations pre
             @ ''<a href="#chunk-'' @ ds
             @ ''" class="chunk-citation-link" onclick="document.getElementById(''
             @ [CHR 0x27] @ ''chunk-'' @ ds @ [CHR 0x27]
             @ '').scrollIntoView({behavior: '' @ [CHR 0x27] @ ''smooth'' @ [CHR 0x27]
             @ ''}); return false;">[chunk'' @ ds @ '']</a>''
             @ replace_citations rest)
   \<and> ((\<forall>pre ds rest. marked ans = pre @ ''[chunk'' @ ds @ '']'' @ rest \<longrightarrow>
          ds = [] \<or> (\<exists>c \<in> set ds. c \<notin> set ''0123456789'')) \<longrightarrow>
         formatAnswer marked ans = marked ans)
   \<and> (\<forall>pre post.
         marked ans = pre @ ans @ post \<and> CHR ''['' \<notin> set pre \<and> CHR ''['' \<notin> set post
         \<and> (post = [] \<or> hd post \<notin> set ''chunk]0123456789'') \<longrightarrow>
         formatAnswer marked ans = pre @ replace_citations ans @ post)\<close>
proof -
  have 1: "formatAnswer marked ans = concat (map render (segments (marked ans)))"
    by (simp add: formatAnswer_def replace_citations_def)
  have 2: "concat (map source_text (segments (marked ans))) = marked ans"
    by (rule segments_source)
  have 3: "\<forall>c. render (Plain c) = [c] \<and> source_text (Plain c) = [c]"
    by simp
  have 4: \<open>\<forall>ds. Citation ds \<in> set (segments (marked ans)) \<longrightarrow>
         ds \<noteq> [] \<and> (\<forall>c \<in> set ds. c \<in> set ''0123456789'')
         \<and> source_text (Citation ds) = ''[chunk'' @ ds @ '']''
         \<and> render (Citation ds) =
             ''<a href="#chunk-'' @ ds
             @ ''" class="chunk-citation-link" onclick="document.getElementById(''
             @ [CHR 0x27] @ ''chunk-'' @ ds @ [CHR 0x27]
             @ '').scrollIntoView({behavior: '' @ [CHR 0x27] @ ''smooth'' @ [CHR 0x27]
             @ ''}); return false;">[chunk'' @ ds @ '']</a>''\<close>
  proof (intro allI impI)
    fix ds assume c: "Citation ds \<in> set (segments (marked ans))"
    from segments_citation_digits [OF c]
    have "ds \<noteq> []" "\<forall>c \<in> set ds. c \<in> set ''0123456789''"
      by (simp_all add: isDigit_def)
    then show \<open>ds \<noteq> [] \<and> (\<forall>c \<in> set ds. c \<in> set ''0123456789'')
         \<and> source_text (Citation ds) = ''[chunk'' @ ds @ '']''
         \<and> render (Citation ds) =
             ''<a href="#chunk-'' @ ds
             @ ''" class="chunk-citation-link" onclick="document.getElementById(''
             @ [CHR 0x27] @ ''chunk-'' @ ds @ [CHR 0x27]
             @ '').scrollIntoView({behavior: '' @ [CHR 0x27] @ ''smooth'' @ [CHR 0x27]
             @ ''}); return false;">[chunk'' @ ds @ '']</a>''\<close>
      by (simp add: citation_link_def citation_target_def)
  qed
  have 5: \<open>\<forall>pre ds rest.
         marked ans = pre @ ''[chunk'' @ ds @ '']'' @ rest
         \<and> ds \<noteq> [] \<and> (\<forall>c \<in> set ds. c \<in> set ''0123456789'') \<longrightarrow>
         formatAnswer marked ans
           = replace_citations pre
             @ ''<a href="#chunk-'' @ ds
             @ ''" class="chunk-citation-link" onclick="document.getElementById(''
             @ [CHR 0x27] @ ''chunk-'' @ ds @ [CHR 0x27]
             @ '').scrollIntoView({behavior: '' @ [CHR 0x27] @ ''smooth'' @ [CHR 0x27]
             @ ''}); return false;">[chunk'' @ ds @ '']</a>''
             @ replace_citations rest\<close>
  proof (intro allI impI)
    fix pre ds rest
    assume a: "marked ans = pre @ ''[chunk'' @ ds @ '']'' @ rest
         \<and> ds \<noteq> [] \<and> (\<forall>c \<in> set ds. c \<in> set ''0123456789'')"
    then have "ds \<noteq> []" "\<forall>c \<in> set ds. isDigit c"
      by (simp_all add: isDigit_def)
    from segments_token [OF this, of pre rest] a
    have "formatAnswer marked ans
        = replace_citations pre @ citation_link ds @ replace_citations rest"
      by (simp add: formatAnswer_def replace_citations_def)
    then show \<open>formatAnswer marked ans
           = replace_citations pre
             @ ''<a href="#chunk-'' @ ds
             @ ''" class="chunk-citation-link" onclick="document.getElementById(''
             @ [CHR 0x27] @ ''chunk-'' @ ds @ [CHR 0x27]
             @ '').scrollIntoView({behavior: '' @ [CHR 0x27] @ ''smooth'' @ [CHR 0x27]
             @ ''}); return false;">[chunk'' @ ds @ '']</a>''
             @ replace_citations rest\<close>
      by (simp add: citation_link_def citation_target_def)
  qed
  have 6: "(\<forall>pre ds rest. marked ans = pre @ ''[chunk'' @ ds @ '']'' @ rest \<longrightarrow>
          ds = [] \<or> (\<exists>c \<in> set ds. c \<notin> set ''0123456789'')) \<longrightarrow>
         formatAnswer marked ans = marked ans"
  proof
    assume "\<forall>pre ds rest. marked ans = pre @ ''[chunk'' @ ds @ '']'' @ rest \<longrightarrow>
          ds = [] \<or> (\<exists>c \<in> set ds. c \<notin> set ''0123456789'')"
    from segments_no_match [OF no_token_no_match [OF this]]
    show "formatAnswer marked ans = marked ans"
      by (simp add: formatAnswer_def replace_citations_def render_map_Plain)
  qed
  have 7: "\<forall>pre post.
         marked ans = pre @ ans @ post \<and> CHR ''['' \<notin> set pre \<and> CHR ''['' \<notin> set post
         \<and> (post = [] \<or> hd post \<notin> set ''chunk]0123456789'') \<longrightarrow>
         formatAnswer marked ans = pre @ replace_citations ans @ post"
  proof (intro allI impI)
    fix pre post
    assume a: "marked ans = pre @ ans @ post \<and> CHR ''['' \<notin> set pre \<and> CHR ''['' \<notin> set post
         \<and> (post = [] \<or> hd post \<notin> set ''chunk]0123456789'')"
    then have "post = [] \<or> (hd post \<notin> set ''chunk]'' \<and> \<not> isDigit (hd post))"
      by (auto simp: isDigit_def)
    with a replace_citations_wrapped [of pre post ans]
    show "formatAnswer marked ans = pre @ replace_citations ans @ post"
      by (simp add: formatAnswer_def)
  qed
  show ?thesis by (intro conjI 1 2 3 4 5 6 7)
qed

theorem formatAnswer_rewrites_exactly_citations_witness:
  \<open>formatAnswer (\<lambda>a. ''<p>'' @ a @ ''</p>'') ''[x] [chunk 1] [chunk12]''
     = ''<p>[x] [chunk 1] <a href="#chunk-12" class="chunk-citation-link" ''
       @ ''onclick="document.getElementById('' @ [CHR 0x27] @ ''chunk-12'' @ [CHR 0x27]
       @ '').scrollIntoView({behavior: '' @ [CHR 0x27] @ ''smooth'' @ [CHR 0x27]
       @ ''}); return false;">[chunk12]</a></p>''\<close>
proof -
  note T = formatAnswer_rewrites_exactly_citations
    [of "\<lambda>a. ''<p>'' @ a @ ''</p>''" "''[x] [chunk 1] [chunk12]''"]
  have w: "(\<lambda>a. ''<p>'' @ a @ ''</p>'') ''[x] [chunk 1] [chunk12]''
        = ''<p>[x] [chunk 1] '' @ ''[chunk'' @ ''12'' @ '']'' @ ''</p>''
      \<and> ''12'' \<noteq> [] \<and> (\<forall>c \<in> set ''12''. c \<in> set ''0123456789'')"
    by simp
  have pre: "replace_citations ''<p>[x] [chunk 1] '' = ''<p>[x] [chunk 1] ''"
    by code_simp
  have rest: "replace_citations ''</p>'' = ''</p>''"
    by code_simp
  from T [THEN conjunct2, THEN conjunct2, THEN conjunct2, THEN conjunct2, THEN conjunct1,
          rule_format, OF w]
  show ?thesis unfolding pre rest by simp
qed

lemma getChunkReference_Some_iff:
  "getChunkReference (Some r) index = Some s \<longleftrightarrow>
     (\<exists>refs. references r = Some refs \<and> index < length refs
        \<and> refs ! index = Some s \<and> s \<noteq> [])"
  by (auto simp: getChunkReference_def array_get_def truthy_def
           split: option.splits if_splits)

text \<open>
  C9. The references list is read by position: the card of the chunk at 1-based
  position \<open>i\<close> has the anchor \<open>chunk-i\<close> and shows a reference link exactly when
  \<open>references[i-1]\<close> is a non-empty string, and then that string; when the list is
  missing, too short, or has null there, the card shows "Document excerpt". The lookup
  is total: no case is an error.
\<close>

theorem chunk_reference_parallel:
  assumes "chunks r = Some cs" and "1 \<le> i" and "i \<le> length cs"
  shows "card_id (chunk_cards (Some r) False ! (i - 1)) = ''chunk-'' @ string_of_nat i
   \<and> (\<forall>s. card_title (chunk_cards (Some r) False ! (i - 1)) = ReferenceLink s \<longleftrightarrow>
          (\<exists>refs. references r = Some refs \<and> i - 1 < length refs
             \<and> refs ! (i - 1) = Some s \<and> s \<noteq> []))
   \<and> ((references r = None
        \<or> (\<exists>refs. references r = Some refs
              \<and> (length refs \<le> i - 1 \<or> refs ! (i - 1) = None)))
       \<longrightarrow> card_title (chunk_cards (Some r) False ! (i - 1)) = DocumentExcerpt)"
proof -
  from assms have lt: "i - 1 < length cs" and suc: "i - 1 + 1 = i" by auto
  from assms(1) lt have card:
    "chunk_cards (Some r) False ! (i - 1) = chunk_card_at (Some r) (i - 1)"
    by (simp add: chunk_cards_def)
  show ?thesis
    unfolding card
    using suc
    by (auto simp: chunk_card_at_def getChunkReference_def array_get_def truthy_def
             split: option.splits if_splits)
qed

theorem chunk_reference_parallel_witness:
  "card_title (chunk_cards
      (Some \<lparr>answer = ''A'', memory_id = Some 7, from_memory = False,
             chunks = Some [''a'', ''b'', ''c''], entities = Some ([]::string list),
             references = Some [Some ''doi:10.1/x'', None]\<rparr>) False ! (1 - 1))
     = ReferenceLink ''doi:10.1/x''
   \<and> card_title (chunk_cards
      (Some \<lparr>answer = ''A'', memory_id = Some 7, from_memory = False,
             chunks = Some [''a'', ''b'', ''c''], entities = Some ([]::string list),
             references = Some [Some ''doi:10.1/x'', None]\<rparr>) False ! (2 - 1))
     = DocumentExcerpt
   \<and> card_title (chunk_cards
      (Some \<lparr>answer = ''A'', memory_id = Some 7, from_memory = False,
             chunks = Some [''a'', ''b'', ''c''], entities = Some ([]::string list),
             references = Some [Some ''doi:10.1/x'', None]\<rparr>) False ! (3 - 1))
     = DocumentExcerpt"
  using
    chunk_reference_parallel [of
      "\<lparr>answer = ''A'', memory_id = Some 7, from_memory = False,
        chunks = Some [''a'', ''b'', ''c''], entities = Some ([]::string list),
        references = Some [Some ''doi:10.1/x'', None]\<rparr>" "[''a'', ''b'', ''c'']" 1]
    chunk_reference_parallel [of
      "\<lparr>answer = ''A'', memory_id = Some 7, from_memory = False,
        chunks = Some [''a'', ''b'', ''c''], entities = Some ([]::string list),
        references = Some [Some ''doi:10.1/x'', None]\<rparr>" "[''a'', ''b'', ''c'']" 2]
    chunk_reference_parallel [of
      "\<lparr>answer = ''A'', memory_id = Some 7, from_memory = False,
        chunks = Some [''a'', ''b'', ''c''], entities = Some ([]::string list),
        references = Some [Some ''doi:10.1/x'', None]\<rparr>" "[''a'', ''b'', ''c'']" 3]
  by simp


section \<open>Properties of the feedback components and the recorder\<close>

lemma all_cleared_blank: "all_cleared f \<longleftrightarrow> f = blank_feedback"
  by (cases f) (auto simp: all_cleared_def blank_feedback_def)

lemma upsertFeedback_Inr_iff:
  "upsertFeedback store i flds = Inr store' \<longleftrightarrow>
     valid_fields flds \<and>
     store' = (if all_cleared (merge_feedback (stored_feedback store i) flds)
               then store(i := None)
               else store(i \<mapsto> merge_feedback (stored_feedback store i) flds))"
  by (auto simp: upsertFeedback_def stored_feedback_def Let_def)

lemma upsertFeedback_stored:
  assumes "upsertFeedback store i flds = Inr store'"
  shows "stored_feedback store' i = merge_feedback (stored_feedback store i) flds"
    and "j \<noteq> i \<Longrightarrow> store' j = store j"
  using assms
  by (auto simp: upsertFeedback_Inr_iff stored_feedback_def all_cleared_blank
           split: if_splits)

lemma upsertFeedback_total:
  "valid_fields flds \<Longrightarrow> \<exists>store'. upsertFeedback store i flds = Inr store'"
  by (simp add: upsertFeedback_Inr_iff)

lemma upsertFeedback_rejects:
  "\<not> valid_fields flds \<Longrightarrow> upsertFeedback store i flds = Inl ValidationError"
  by (simp add: upsertFeedback_def)



lemma toggleFavorite_body_simps [simp]:
  "req_rating (toggleFavorite_body this) = Absent"
  "req_accuracy_rating (toggleFavorite_body this) = Absent"
  "req_comprehensiveness_rating (toggleFavorite_body this) = Absent"
  "req_helpfulness_rating (toggleFavorite_body this) = Absent"
  "req_feedback_text (toggleFavorite_body this) = Absent"
  "req_is_favorite (toggleFavorite_body this) = Value (\<not> isFavorite this)"
  "req_memory_id (toggleFavorite_body this) = memoryId this"
  by (simp_all add: toggleFavorite_body_def)

lemma toggleFavorite_valid [simp]: "valid_fields (toggleFavorite_body this)"
  by (simp add: valid_fields_def valid_rating_def)

lemma toggleFavorite_serve:
  assumes "memoryId this = Some i"
  shows "\<exists>store'. upsertFeedback store i (toggleFavorite_body this) = Inr store'
     \<and> toggleFavorite serve store this
        = (store', this\<lparr>isSubmitting := True\<rparr>\<lparr>isFavorite := \<not> isFavorite this, isSubmitting := False\<rparr>,
           [Emit (FavoriteChanged (\<not> isFavorite this))])"
proof -
  have b: "toggleFavorite_body (this\<lparr>isSubmitting := True\<rparr>) = toggleFavorite_body this"
    by (simp add: toggleFavorite_body_def)
  obtain store' where up: "upsertFeedback store i (toggleFavorite_body this) = Inr store'"
    using upsertFeedback_total [OF toggleFavorite_valid] by blast
  have "toggleFavorite serve store this
        = (store', this\<lparr>isSubmitting := True\<rparr>\<lparr>isFavorite := \<not> isFavorite this, isSubmitting := False\<rparr>,
           [Emit (FavoriteChanged (\<not> isFavorite this))])"
    unfolding toggleFavorite_def Let_def b
    by (simp add: assms up api_ok_def)
  with up show ?thesis by blast
qed

text \<open>
  C4. The request of toggleFavorite carries the memory id and the negated favourite
  flag and nothing else. Run against the recorder it succeeds, the stored legacy
  rating, the three categorical ratings and the comment of the entry keep their
  values, the stored flag becomes the new value, other entries are untouched, and the
  component changes only its own flag.
\<close>

theorem toggleFavorite_frame:
  assumes "memoryId this = Some i"
  shows "req_rating (toggleFavorite_body this) = Absent
     \<and> req_accuracy_rating (toggleFavorite_body this) = Absent
     \<and> req_comprehensiveness_rating (toggleFavorite_body this) = Absent
     \<and> req_helpfulness_rating (toggleFavorite_body this) = Absent
     \<and> req_feedback_text (toggleFavorite_body this) = Absent
     \<and> req_is_favorite (toggleFavorite_body this) = Value (\<not> isFavorite this)
     \<and> req_memory_id (toggleFavorite_body this) = Some i
     \<and> (case toggleFavorite serve store this of
          (store', this', fx) \<Rightarrow>
            fb_rating (stored_feedback store' i) = fb_rating (stored_feedback store i)
            \<and> fb_accuracy_rating (stored_feedback store' i)
                = fb_accuracy_rating (stored_feedback store i)
            \<and> fb_comprehensiveness_rating (stored_feedback store' i)
                = fb_comprehensiveness_rating (stored_feedback store i)
            \<and> fb_helpfulness_rating (stored_feedback store' i)
                = fb_helpfulness_rating (stored_feedback store i)
            \<and> fb_feedback_text (stored_feedback store' i)
                = fb_feedback_text (stored_feedback store i)
            \<and> fb_is_favorite (stored_feedback store' i) = (\<not> isFavorite this)
            \<and> (\<forall>j. j \<noteq> i \<longrightarrow> store' j = store j)
            \<and> this' = this\<lparr>isFavorite := \<not> isFavorite this, isSubmitting := False\<rparr>
            \<and> fx = [Emit (FavoriteChanged (\<not> isFavorite this))])"
proof -
  from toggleFavorite_serve [OF assms, of store]
  obtain store' where up: "upsertFeedback store i (toggleFavorite_body this) = Inr store'"
    and run: "toggleFavorite serve store this
        = (store', this\<lparr>isSubmitting := True\<rparr>\<lparr>isFavorite := \<not> isFavorite this, isSubmitting := False\<rparr>,
           [Emit (FavoriteChanged (\<not> isFavorite this))])"
    by blast
  from upsertFeedback_stored [OF up]
  have st: "stored_feedback store' i = merge_feedback (stored_feedback store i) (toggleFavorite_body this)"
    and other: "\<forall>j. j \<noteq> i \<longrightarrow> store' j = store j"
    by simp_all
  show ?thesis
    unfolding run using assms other
    by (simp add: st merge_feedback_def merge_field_def merge_flag_def)
qed

theorem toggleFavorite_frame_witness:
  "stored_feedback
     (fst (toggleFavorite serve
        [7 \<mapsto> blank_feedback\<lparr>fb_rating := Some 4, fb_feedback_text := Some ''good''\<rparr>]
        (initial_result_actions (Some 7) False))) 7
   = blank_feedback\<lparr>fb_rating := Some 4, fb_feedback_text := Some ''good'',
                     fb_is_favorite := True\<rparr>"
proof -
  let ?store = "[7 \<mapsto> blank_feedback\<lparr>fb_rating := Some 4, fb_feedback_text := Some ''good''\<rparr>]
                  :: feedback_store"
  let ?st = "initial_result_actions (Some 7) False"
  have m: "memoryId ?st = Some 7" by (simp add: initial_result_actions_def)
  obtain store' this' fx where run: "toggleFavorite serve ?store ?st = (store', this', fx)"
    by (cases "toggleFavorite serve ?store ?st")
  from toggleFavorite_frame [OF m, of ?store] run
  have "fb_rating (stored_feedback store' 7) = Some 4
     \<and> fb_accuracy_rating (stored_feedback store' 7) = None
     \<and> fb_comprehensiveness_rating (stored_feedback store' 7) = None
     \<and> fb_helpfulness_rating (stored_feedback store' 7) = None
     \<and> fb_feedback_text (stored_feedback store' 7) = Some ''good''
     \<and> fb_is_favorite (stored_feedback store' 7)"
    by (simp add: stored_feedback_def blank_feedback_def initial_result_actions_def)
  then have "stored_feedback store' 7
      = blank_feedback\<lparr>fb_rating := Some 4, fb_feedback_text := Some ''good'',
                        fb_is_favorite := True\<rparr>"
    by (cases "stored_feedback store' 7") (simp add: blank_feedback_def)
  with run show ?thesis by simp
qed

lemma dropWhile_id: "xs \<noteq> [] \<Longrightarrow> \<not> P (hd xs) \<Longrightarrow> dropWhile P xs = xs"
  by (cases xs) auto

lemma last_dropWhile: "dropWhile P xs \<noteq> [] \<Longrightarrow> last (dropWhile P xs) = last xs"
  by (induction xs) (auto split: if_splits)

lemma trim_trim: "trim (trim s) = trim s"
proof (cases "trim s = []")
  case True
  have "trim [] = []" by (simp add: trim_def)
  with True show ?thesis by simp
next
  case False
  define d where "d = dropWhile isWhiteSpace s"
  define e where "e = dropWhile isWhiteSpace (rev d)"
  have t: "trim s = rev e" by (simp add: trim_def d_def e_def)
  with False have e: "e \<noteq> []" by simp
  then have d: "d \<noteq> []" by (auto simp: e_def)
  have hd_e: "\<not> isWhiteSpace (hd e)"
    using e unfolding e_def by (rule hd_dropWhile)
  have "last e = last (rev d)"
    using e unfolding e_def by (rule last_dropWhile)
  also have "\<dots> = hd d" using d by (simp add: last_rev)
  finally have last_e: "\<not> isWhiteSpace (last e)"
    using d hd_dropWhile [of isWhiteSpace s] by (simp add: d_def)
  have 1: "dropWhile isWhiteSpace (rev e) = rev e"
    using e last_e by (intro dropWhile_id) (simp_all add: hd_rev)
  have 2: "dropWhile isWhiteSpace e = e"
    using e hd_e by (rule dropWhile_id)
  have "trim (rev e) = rev (dropWhile isWhiteSpace (rev (dropWhile isWhiteSpace (rev e))))"
    by (simp only: trim_def)
  also have "\<dots> = rev e" by (simp only: 1 2 rev_rev_ident)
  finally show ?thesis by (simp only: t)
qed

lemma well_stored_nonempty: "well_stored f \<Longrightarrow> nonempty_feedback f"
  by (auto simp: well_stored_def nonempty_feedback_def all_cleared_def split: option.splits)

lemma merge_comment_ok:
  assumes "case fb_feedback_text f of None \<Rightarrow> True | Some t \<Rightarrow> trim t \<noteq> []"
    and "comment_ok flds"
  shows "case fb_feedback_text (merge_feedback f flds) of None \<Rightarrow> True | Some t \<Rightarrow> trim t \<noteq> []"
  using assms
  by (cases "req_feedback_text flds")
     (simp_all add: merge_feedback_def merge_field_def comment_ok_def)

lemma upsertFeedback_inv:
  assumes inv: "store_inv store" and ok: "comment_ok flds"
    and up: "upsertFeedback store i flds = Inr store'"
  shows "store_inv store'"
proof -
  have old: "case fb_feedback_text (stored_feedback store i) of
               None \<Rightarrow> True | Some t \<Rightarrow> trim t \<noteq> []"
    using inv
    by (auto simp: store_inv_def stored_feedback_def well_stored_def blank_feedback_def
             split: option.splits)
  show ?thesis
  proof (cases "all_cleared (merge_feedback (stored_feedback store i) flds)")
    case True
    with up have "store' = store(i := None)" by (simp add: upsertFeedback_Inr_iff)
    with inv show ?thesis by (simp add: store_inv_def)
  next
    case False
    with up have s: "store' = store(i \<mapsto> merge_feedback (stored_feedback store i) flds)"
      by (simp add: upsertFeedback_Inr_iff)
    from merge_comment_ok [OF old ok] False
    have "well_stored (merge_feedback (stored_feedback store i) flds)"
      by (simp add: well_stored_def)
    with inv show ?thesis
      by (simp add: s store_inv_def)
  qed
qed

lemma serve_inv:
  assumes "store_inv store"
    and "\<And>b. req = PostFeedback b \<Longrightarrow> comment_ok b"
  shows "store_inv (snd (serve req store))"
proof (cases req)
  case (PostFeedback b)
  with assms upsertFeedback_inv [of store b] show ?thesis
    by (auto split: option.splits sum.splits)
next
  case (GetFeedback i)
  with assms(1) show ?thesis by (simp split: option.splits)
next
  case (DeleteFeedback m)
  with assms(1) show ?thesis
    by (auto simp: clearFeedback_def store_inv_def split: option.splits)
qed

lemma serve_get_store [simp]: "snd (serve (GetFeedback i) store) = store"
  by (simp split: option.splits)

lemma loadExistingFeedback_store [simp]:
  "fst (loadExistingFeedback serve store this) = store"
  unfolding loadExistingFeedback_def
  by (cases "serve (GetFeedback (the (memoryId this))) store")
     (auto simp: Let_def api_ok_def api_rejected_def
           split: option.splits fetch_outcome.splits json_outcome.splits prod.splits)

lemma loadExistingFeedback_legacy_store [simp]:
  "fst (loadExistingFeedback_legacy serve store this) = store"
  unfolding loadExistingFeedback_legacy_def
  by (cases "serve (GetFeedback (the (memoryId this))) store")
     (auto simp: Let_def api_ok_def api_rejected_def
           split: option.splits fetch_outcome.splits json_outcome.splits prod.splits)

lemma trimmed_or_null_ok: "case trimmed_or_null s of Value t \<Rightarrow> trim t \<noteq> [] | _ \<Rightarrow> True"
  by (simp add: trimmed_or_null_def trim_trim)

lemma comment_ok_bodies [simp]:
  "comment_ok (toggleFavorite_body this)"
  "comment_ok (submitFeedback_body st)"
  "comment_ok (submitFeedback_body_legacy old)"
  "comment_ok (handleRating_body m r)"
  using trimmed_or_null_ok
  by (simp_all add: comment_ok_def submitFeedback_body_def submitFeedback_body_legacy_def
                    handleRating_body_def)

lemma action_store_cases:
  fixes net :: "'w net"
  shows "fst (toggleFavorite net w this)
           = snd (net (PostFeedback (toggleFavorite_body (this\<lparr>isSubmitting := True\<rparr>))) w)"
  by (auto simp: toggleFavorite_def Let_def split: prod.splits fetch_outcome.splits)

lemma submitFeedback_store:
  "fst (submitFeedback serve store this) = store
   \<or> fst (submitFeedback serve store this)
       = snd (serve (PostFeedback (submitFeedback_body (this\<lparr>isSubmitting := True\<rparr>))) store)"
proof (cases "submitFeedback_guard this")
  case True
  then show ?thesis by (simp add: submitFeedback_def)
next
  case False
  obtain out w1 where n:
    "serve (PostFeedback (submitFeedback_body (this\<lparr>isSubmitting := True\<rparr>))) store = (out, w1)"
    by (cases "serve (PostFeedback (submitFeedback_body (this\<lparr>isSubmitting := True\<rparr>))) store")
  have "fst (submitFeedback serve store this) = w1"
  proof (cases out)
    case (FetchThrows m)
    with False n show ?thesis by (simp add: submitFeedback_def Let_def)
  next
    case (Resolved resp)
    have l: "fst (loadExistingFeedback serve w1 st) = w1" for st by simp
    show ?thesis
    proof (cases "ok resp")
      case True
      obtain w2 t2 fx where r: "loadExistingFeedback serve w1
          (this\<lparr>isSubmitting := True, showFeedback := False\<rparr>) = (w2, t2, fx)"
        by (cases "loadExistingFeedback serve w1 (this\<lparr>isSubmitting := True, showFeedback := False\<rparr>)")
      with l [of "this\<lparr>isSubmitting := True, showFeedback := False\<rparr>"] have "w2 = w1" by simp
      with False n Resolved True r show ?thesis
        by (simp add: submitFeedback_def Let_def)
    next
      case f: False
      with False n Resolved show ?thesis by (simp add: submitFeedback_def Let_def)
    qed
  qed
  with n show ?thesis by simp
qed

lemma submitFeedback_legacy_store:
  "fst (submitFeedback_legacy serve store this) = store
   \<or> fst (submitFeedback_legacy serve store this)
       = snd (serve (PostFeedback (submitFeedback_body_legacy (this\<lparr>isSubmitting := True\<rparr>))) store)"
proof (cases "submitFeedback_guard_legacy this")
  case True
  then show ?thesis by (simp add: submitFeedback_legacy_def)
next
  case False
  obtain out w1 where n:
    "serve (PostFeedback (submitFeedback_body_legacy (this\<lparr>isSubmitting := True\<rparr>))) store = (out, w1)"
    by (cases "serve (PostFeedback (submitFeedback_body_legacy (this\<lparr>isSubmitting := True\<rparr>))) store")
  have "fst (submitFeedback_legacy serve store this) = w1"
  proof (cases out)
    case (FetchThrows m)
    with False n show ?thesis by (simp add: submitFeedback_legacy_def Let_def)
  next
    case (Resolved resp)
    have l: "fst (loadExistingFeedback_legacy serve w1 st) = w1" for st :: "'a result_actions_legacy_scheme"
      by simp
    show ?thesis
    proof (cases "ok resp")
      case True
      obtain w2 t2 fx where r: "loadExistingFeedback_legacy serve w1
          (this\<lparr>isSubmitting := True, showFeedback := False\<rparr>) = (w2, t2, fx)"
        by (cases "loadExistingFeedback_legacy serve w1 (this\<lparr>isSubmitting := True, showFeedback := False\<rparr>)")
      with l [of "this\<lparr>isSubmitting := True, showFeedback := False\<rparr>"] have "w2 = w1" by simp
      with False n Resolved True r show ?thesis
        by (simp add: submitFeedback_legacy_def Let_def)
    next
      case f: False
      with False n Resolved show ?thesis by (simp add: submitFeedback_legacy_def Let_def)
    qed
  qed
  with n show ?thesis by simp
qed

lemma clearAllFeedback_store:
  fixes net :: "'w net"
  shows "fst (clearAllFeedback confirmed net w this) = w
   \<or> fst (clearAllFeedback confirmed net w this)
       = snd (net (DeleteFeedback (memoryId this)) w)"
  by (auto simp: clearAllFeedback_def Let_def split: prod.splits fetch_outcome.splits)

lemma handleRating_store:
  fixes net :: "'w net"
  shows "handleRating net w res r = w
   \<or> (\<exists>m. handleRating net w res r = snd (net (PostFeedback (handleRating_body m r)) w))"
  by (auto simp: handleRating_def split: option.splits)

lemma serve_post_inv:
  "store_inv store \<Longrightarrow> comment_ok b \<Longrightarrow> store_inv (snd (serve (PostFeedback b) store))"
  by (rule serve_inv) simp_all

lemma serve_delete_inv:
  "store_inv store \<Longrightarrow> store_inv (snd (serve (DeleteFeedback m) store))"
  by (rule serve_inv) simp_all

lemma client_reachable_inv: "store \<in> client_reachable \<Longrightarrow> store_inv store"
proof (induction rule: client_reachable.induct)
  case start
  show ?case by (simp add: store_inv_def)
next
  case (toggle store this)
  then show ?case
    by (simp only: action_store_cases) (rule serve_post_inv, simp_all)
next
  case (submit store this)
  with submitFeedback_store [of store this] show ?case
    by (auto simp del: serve.simps simp: serve_post_inv)
next
  case (submit_legacy store old)
  with submitFeedback_legacy_store [of store old] show ?case
    by (auto simp del: serve.simps simp: serve_post_inv)
next
  case (clear_all store confirmed this)
  with clearAllFeedback_store [of confirmed serve store this] show ?case
    by (auto simp del: serve.simps simp: serve_delete_inv)
next
  case (rate store res r)
  with handleRating_store [of serve store res r] show ?case
    by (auto simp del: serve.simps simp: serve_post_inv)
qed

text \<open>
  C5. submitFeedback sends nothing and changes nothing when every rating is 0, the
  trimmed comment is empty and the favourite flag is off (both versions). In every
  store that the components can produce, each record that exists has a rating set, a
  comment that is not blank, or the favourite flag. An upsert whose merge leaves all
  fields cleared removes the record.
\<close>

theorem feedback_records_nonempty:
  "(submitFeedback_guard this \<longleftrightarrow>
      rating this = 0 \<and> accuracyRating this = 0 \<and> comprehensivenessRating this = 0
      \<and> helpfulnessRating this = 0 \<and> trim (feedbackText this) = [] \<and> \<not> isFavorite this)
   \<and> (submitFeedback_guard this \<longrightarrow>
        (\<forall>net w. submitFeedback net w this
           = (w, this,
              [Alert ''Please provide at least one rating, comment, or mark as favorite''])))
   \<and> (submitFeedback_guard_legacy old \<longleftrightarrow>
        rating old = 0 \<and> trim (feedbackText old) = [] \<and> \<not> isFavorite old)
   \<and> (submitFeedback_guard_legacy old \<longrightarrow>
        (\<forall>net w. submitFeedback_legacy net w old
           = (w, old,
              [Alert ''Please provide at least a rating, comment, or mark as favorite''])))
   \<and> (\<forall>store i f. store \<in> client_reachable \<and> store i = Some f \<longrightarrow> nonempty_feedback f)
   \<and> (\<forall>store i (flds :: feedback_body) store'.
        upsertFeedback store i flds = Inr store'
        \<and> all_cleared (merge_feedback (stored_feedback store i) flds) \<longrightarrow> store' i = None)"
proof -
  have inv: "\<forall>store i f. store \<in> client_reachable \<and> store i = Some f \<longrightarrow> nonempty_feedback f"
  proof (intro allI impI)
    fix store i f
    assume "store \<in> client_reachable \<and> store i = Some f"
    with client_reachable_inv [of store] have "well_stored f"
      by (auto simp: store_inv_def)
    then show "nonempty_feedback f" by (rule well_stored_nonempty)
  qed
  have del: "\<forall>store i (flds :: feedback_body) store'.
        upsertFeedback store i flds = Inr store'
        \<and> all_cleared (merge_feedback (stored_feedback store i) flds) \<longrightarrow> store' i = None"
    by (simp add: upsertFeedback_Inr_iff)
  show ?thesis
    by (intro conjI inv del)
       (simp_all add: submitFeedback_guard_def submitFeedback_guard_legacy_def
          submitFeedback_def submitFeedback_legacy_def)
qed

theorem feedback_records_nonempty_witness:
  "submitFeedback serve Map.empty (initial_result_actions (Some 7) False)
     = (Map.empty, initial_result_actions (Some 7) False,
        [Alert ''Please provide at least one rating, comment, or mark as favorite''])
   \<and> fst (toggleFavorite serve Map.empty (initial_result_actions (Some 7) False)) 7
       = Some (blank_feedback\<lparr>fb_is_favorite := True\<rparr>)
   \<and> nonempty_feedback (blank_feedback\<lparr>fb_is_favorite := True\<rparr>)
   \<and> fst (toggleFavorite serve [7 \<mapsto> blank_feedback\<lparr>fb_is_favorite := True\<rparr>]
            (initial_result_actions (Some 7) True)) 7 = None"
proof -
  let ?st = "initial_result_actions (Some 7) False"
  note T = feedback_records_nonempty [of ?st]
  have g: "submitFeedback_guard ?st"
    by (simp add: submitFeedback_guard_def initial_result_actions_def trim_def)
  from T [THEN conjunct2, THEN conjunct1, rule_format, OF g]
  have 1: "submitFeedback serve Map.empty ?st
     = (Map.empty, ?st,
        [Alert ''Please provide at least one rating, comment, or mark as favorite''])" .
  have r: "fst (toggleFavorite serve Map.empty ?st) \<in> client_reachable"
    by (intro client_reachable.intros)
  have 2: "fst (toggleFavorite serve Map.empty ?st) 7
       = Some (blank_feedback\<lparr>fb_is_favorite := True\<rparr>)"
    by code_simp
  from T [THEN conjunct2, THEN conjunct2, THEN conjunct2, THEN conjunct2, THEN conjunct1,
          rule_format, OF conjI, OF r 2]
  have 3: "nonempty_feedback (blank_feedback\<lparr>fb_is_favorite := True\<rparr>)" .
  have 4: "fst (toggleFavorite serve [7 \<mapsto> blank_feedback\<lparr>fb_is_favorite := True\<rparr>]
            (initial_result_actions (Some 7) True)) 7 = None"
    by code_simp
  from 1 2 3 4 show ?thesis by simp
qed

text \<open>
  C6. After a confirmed clearAllFeedback against the recorder the entry has no record,
  a GET for it is answered "none", loading it again finds nothing, and the component's
  existing feedback, ratings, comment and favourite flag are back at their empty
  values (both versions); the component resets them after any DELETE answered ok.
\<close>

theorem clearAllFeedback_removes_record:
  assumes "memoryId this = Some i" and "memoryId old = Some i"
  shows
  "(case clearAllFeedback True serve store this of
      (store', this', fx) \<Rightarrow>
        store' i = None
        \<and> fst (serve (GetFeedback i) store') = api_rejected 404
        \<and> existingFeedback (fst (snd (loadExistingFeedback serve store' this'))) = None
        \<and> this' = this\<lparr>existingFeedback := None, rating := 0, accuracyRating := 0,
                         comprehensivenessRating := 0, helpfulnessRating := 0,
                         feedbackText := [], isFavorite := False, showFeedback := False,
                         isSubmitting := False\<rparr>
        \<and> fx = [Emit FeedbackCleared])
   \<and> (case clearAllFeedback_legacy True serve store old of
        (store', old', fx) \<Rightarrow>
          store' i = None
          \<and> fst (serve (GetFeedback i) store') = api_rejected 404
          \<and> old' = old\<lparr>existingFeedback := None, rating := 0, feedbackText := [],
                         isFavorite := False, showFeedback := False,
                         isSubmitting := False\<rparr>
          \<and> fx = [Emit FeedbackCleared])
   \<and> (\<forall>net w response w'.
        net (DeleteFeedback (Some i)) w = (Resolved response, w') \<and> ok response \<longrightarrow>
        fst (snd (clearAllFeedback True net w this))
          = this\<lparr>existingFeedback := None, rating := 0, accuracyRating := 0,
                  comprehensivenessRating := 0, helpfulnessRating := 0,
                  feedbackText := [], isFavorite := False, showFeedback := False,
                  isSubmitting := False\<rparr>)"
proof (intro conjI allI impI)
  have run: "clearAllFeedback True serve store this
      = (clearFeedback store i,
         this\<lparr>existingFeedback := None, rating := 0, accuracyRating := 0,
               comprehensivenessRating := 0, helpfulnessRating := 0,
               feedbackText := [], isFavorite := False, showFeedback := False,
               isSubmitting := False\<rparr>,
         [Emit FeedbackCleared])"
    using assms(1) by (simp add: clearAllFeedback_def api_ok_def)
  have load: "existingFeedback (fst (snd (loadExistingFeedback serve (clearFeedback store i)
         (this\<lparr>existingFeedback := None, rating := 0, accuracyRating := 0,
               comprehensivenessRating := 0, helpfulnessRating := 0,
               feedbackText := [], isFavorite := False, showFeedback := False,
               isSubmitting := False\<rparr>)))) = None"
    using assms(1)
    by (simp add: loadExistingFeedback_def clearFeedback_def api_rejected_def)
  show "case clearAllFeedback True serve store this of
      (store', this', fx) \<Rightarrow>
        store' i = None
        \<and> fst (serve (GetFeedback i) store') = api_rejected 404
        \<and> existingFeedback (fst (snd (loadExistingFeedback serve store' this'))) = None
        \<and> this' = this\<lparr>existingFeedback := None, rating := 0, accuracyRating := 0,
                         comprehensivenessRating := 0, helpfulnessRating := 0,
                         feedbackText := [], isFavorite := False, showFeedback := False,
                         isSubmitting := False\<rparr>
        \<and> fx = [Emit FeedbackCleared]"
    unfolding run using load by (simp add: clearFeedback_def)
next
  show "case clearAllFeedback_legacy True serve store old of
        (store', old', fx) \<Rightarrow>
          store' i = None
          \<and> fst (serve (GetFeedback i) store') = api_rejected 404
          \<and> old' = old\<lparr>existingFeedback := None, rating := 0, feedbackText := [],
                         isFavorite := False, showFeedback := False,
                         isSubmitting := False\<rparr>
          \<and> fx = [Emit FeedbackCleared]"
    using assms(2) by (simp add: clearAllFeedback_legacy_def api_ok_def clearFeedback_def)
next
  fix net :: "'w net" and w response w'
  assume "net (DeleteFeedback (Some i)) w = (Resolved response, w') \<and> ok response"
  with assms(1) show "fst (snd (clearAllFeedback True net w this))
          = this\<lparr>existingFeedback := None, rating := 0, accuracyRating := 0,
                  comprehensivenessRating := 0, helpfulnessRating := 0,
                  feedbackText := [], isFavorite := False, showFeedback := False,
                  isSubmitting := False\<rparr>"
    by (simp add: clearAllFeedback_def)
qed

theorem clearAllFeedback_removes_record_witness:
  "fst (clearAllFeedback True serve
          [7 \<mapsto> blank_feedback\<lparr>fb_rating := Some 4, fb_is_favorite := True\<rparr>]
          ((initial_result_actions (Some 7) True)\<lparr>rating := 4,
             existingFeedback := Some (blank_feedback\<lparr>fb_rating := Some 4, fb_is_favorite := True\<rparr>)\<rparr>)) 7
     = None
   \<and> fst (snd (clearAllFeedback True serve
          [7 \<mapsto> blank_feedback\<lparr>fb_rating := Some 4, fb_is_favorite := True\<rparr>]
          ((initial_result_actions (Some 7) True)\<lparr>rating := 4,
             existingFeedback := Some (blank_feedback\<lparr>fb_rating := Some 4, fb_is_favorite := True\<rparr>)\<rparr>)))
     = initial_result_actions (Some 7) False"
proof -
  let ?store = "[7 \<mapsto> blank_feedback\<lparr>fb_rating := Some 4, fb_is_favorite := True\<rparr>]
                  :: feedback_store"
  let ?st = "(initial_result_actions (Some 7) True)\<lparr>rating := 4,
             existingFeedback := Some (blank_feedback\<lparr>fb_rating := Some 4, fb_is_favorite := True\<rparr>)\<rparr>"
  let ?old = "\<lparr>memoryId = Some 7, showFeedback = False, rating = 0, feedbackText = [],
      isFavorite = False, isSubmitting = False, existingFeedback = None\<rparr>"
  have m: "memoryId ?st = Some 7" by (simp add: initial_result_actions_def)
  have m': "memoryId ?old = Some 7" by simp
  obtain store' this' fx where run: "clearAllFeedback True serve ?store ?st = (store', this', fx)"
    by (cases "clearAllFeedback True serve ?store ?st")
  from clearAllFeedback_removes_record [OF m m', of ?store, THEN conjunct1] run
  have "store' 7 = None" and "this' = ?st\<lparr>existingFeedback := None, rating := 0, accuracyRating := 0,
                         comprehensivenessRating := 0, helpfulnessRating := 0,
                         feedbackText := [], isFavorite := False, showFeedback := False,
                         isSubmitting := False\<rparr>"
    by simp_all
  with run show ?thesis by (simp add: initial_result_actions_def)
qed


section \<open>Properties of the tables\<close>

lemma column_value_timestamp [simp]:
  "column_value c (update_user_feedback_timestamp now r) = column_value c r"
  by (cases c) (simp_all add: update_user_feedback_timestamp_def)

lemma rating_checks_iff:
  "rating_checks t r \<longleftrightarrow> (\<forall>c \<in> range_checked t. between_1_and_5 (column_value c r))"
proof -
  have "set all_rating_columns = UNIV"
  proof (intro equalityI subsetI)
    fix c :: rating_column
    show "c \<in> set all_rating_columns" by (cases c) (simp_all add: all_rating_columns_def)
  qed simp
  then show ?thesis by (auto simp: rating_checks_def list_all_iff)
qed

lemma column_value_null_column:
  "column_value c (null_column c' r) = (if c = c' then None else column_value c r)"
  by (cases c; cases c') simp_all

lemma add_column_checked:
  "c \<notin> rating_columns t \<Longrightarrow>
     c \<in> range_checked (add_column_if_not_exists c t)
     \<and> (\<forall>r \<in> set (table_rows (add_column_if_not_exists c t)). column_value c r = None)"
  by (simp add: add_column_if_not_exists_def column_value_null_column)

lemma add_column_other:
  "c \<noteq> c' \<Longrightarrow>
     (c \<in> rating_columns (add_column_if_not_exists c' t) \<longleftrightarrow> c \<in> rating_columns t)
     \<and> (c \<in> range_checked (add_column_if_not_exists c' t) \<longleftrightarrow> c \<in> range_checked t)
     \<and> map (column_value c) (table_rows (add_column_if_not_exists c' t))
         = map (column_value c) (table_rows t)"
  by (simp add: add_column_if_not_exists_def column_value_null_column)

lemma add_column_present:
  "c \<in> rating_columns t \<Longrightarrow> add_column_if_not_exists c t = t"
  by (simp add: add_column_if_not_exists_def)

lemma add_column_inv_new:
  "c \<notin> rating_columns t \<Longrightarrow> column_inv c (add_column_if_not_exists c t)"
  using add_column_checked [of c t] by (simp add: column_inv_def between_1_and_5_def)

lemma add_column_inv_keep:
  assumes "column_inv c t"
  shows "column_inv c (add_column_if_not_exists c' t)"
proof (cases "c = c'")
  case True
  with assms show ?thesis
    by (auto simp: column_inv_def add_column_if_not_exists_def column_value_null_column
          between_1_and_5_def)
next
  case False
  from add_column_other [OF False, of t] assms show ?thesis
    unfolding column_inv_def
    by (metis (no_types, lifting) in_set_conv_nth length_map nth_map)
qed

lemma add_column_columns:
  "c \<in> rating_columns (add_column_if_not_exists c' t) \<longleftrightarrow> c = c' \<or> c \<in> rating_columns t"
  by (auto simp: add_column_if_not_exists_def)

lemma add_multiple_ratings_inv:
  assumes "c \<notin> rating_columns t"
  shows "column_inv c (add_multiple_ratings t)"
proof (cases c)
  case Accuracy_rating
  with assms have "column_inv c (add_column_if_not_exists Accuracy_rating t)"
    by (simp add: add_column_inv_new)
  then show ?thesis
    unfolding add_multiple_ratings_def
    by (rule add_column_inv_keep [OF add_column_inv_keep])
next
  case Comprehensiveness_rating
  with assms have "c \<notin> rating_columns (add_column_if_not_exists Accuracy_rating t)"
    by (simp add: add_column_columns)
  with Comprehensiveness_rating have "column_inv c
      (add_column_if_not_exists Comprehensiveness_rating
         (add_column_if_not_exists Accuracy_rating t))"
    by (simp add: add_column_inv_new)
  then show ?thesis
    unfolding add_multiple_ratings_def by (rule add_column_inv_keep)
next
  case Helpfulness_rating
  with assms have "c \<notin> rating_columns (add_column_if_not_exists Comprehensiveness_rating
      (add_column_if_not_exists Accuracy_rating t))"
    by (simp add: add_column_columns)
  with Helpfulness_rating show ?thesis
    unfolding add_multiple_ratings_def by (simp add: add_column_inv_new)
qed

lemma add_multiple_ratings_skips:
  assumes "c \<in> rating_columns t"
  shows "(c \<in> range_checked (add_multiple_ratings t) \<longleftrightarrow> c \<in> range_checked t)
     \<and> map (column_value c) (table_rows (add_multiple_ratings t))
         = map (column_value c) (table_rows t)"
proof -
  have step: "(c \<in> range_checked (add_column_if_not_exists c' u) \<longleftrightarrow> c \<in> range_checked u)
     \<and> map (column_value c) (table_rows (add_column_if_not_exists c' u))
         = map (column_value c) (table_rows u)"
    if "c \<in> rating_columns u" for c' and u :: "'a user_feedback_table"
    using that add_column_other [of c c' u] add_column_present [of c u]
    by (cases "c = c'") simp_all
  have 1: "c \<in> rating_columns (add_column_if_not_exists Accuracy_rating t)"
    using assms by (simp add: add_column_columns)
  then have 2: "c \<in> rating_columns (add_column_if_not_exists Comprehensiveness_rating
      (add_column_if_not_exists Accuracy_rating t))"
    by (simp add: add_column_columns)
  from step [OF assms, of Accuracy_rating] step [OF 1, of Comprehensiveness_rating]
    step [OF 2, of Helpfulness_rating]
  show ?thesis unfolding add_multiple_ratings_def by simp
qed

lemma exec_feedback_statement_schema:
  "rating_columns (snd (exec_feedback_statement st t)) = rating_columns t
   \<and> range_checked (snd (exec_feedback_statement st t)) = range_checked t"
  by (cases st) (simp_all add: exec_feedback_statement_def Let_def)

lemma exec_feedback_statement_inv:
  assumes "column_inv c t"
  shows "column_inv c (snd (exec_feedback_statement st t))"
proof (cases st)
  case (InsertRow r)
  with assms show ?thesis
    by (auto simp: exec_feedback_statement_def column_inv_def rating_checks_iff)
next
  case (UpdateRows now wh set_values)
  with assms show ?thesis
    by (auto simp: exec_feedback_statement_def column_inv_def rating_checks_iff Let_def
          list_all_iff)
next
  case (DeleteRows wh)
  with assms show ?thesis
    by (auto simp: exec_feedback_statement_def column_inv_def)
qed

lemma exec_feedback_statements_inv:
  "column_inv c t \<Longrightarrow> column_inv c (exec_feedback_statements sts t)"
  by (induction sts arbitrary: t) (simp_all add: exec_feedback_statement_inv)

lemma not_between_iff:
  "\<not> between_1_and_5 x \<longleftrightarrow> (\<exists>v. x = Some v \<and> \<not> (1 \<le> v \<and> v \<le> 5))"
  by (cases x) (simp_all add: between_1_and_5_def)

lemma insert_violation:
  assumes "c \<in> range_checked t" and "\<not> between_1_and_5 (column_value c r)"
  shows "fst (exec_feedback_statement (InsertRow r) t) \<noteq> None
     \<and> snd (exec_feedback_statement (InsertRow r) t) = t"
proof -
  from assms have "\<not> rating_checks t r" by (auto simp: rating_checks_iff)
  then show ?thesis by (simp add: exec_feedback_statement_def)
qed

lemma update_violation:
  assumes "c \<in> range_checked t"
    and "\<exists>x \<in> set (table_rows t). wh x \<and> \<not> between_1_and_5 (column_value c (set_values x))"
  shows "fst (exec_feedback_statement (UpdateRows now wh set_values) t) \<noteq> None
     \<and> snd (exec_feedback_statement (UpdateRows now wh set_values) t) = t"
proof -
  from assms(2) obtain x where x: "x \<in> set (table_rows t)" "wh x"
    "\<not> between_1_and_5 (column_value c (set_values x))"
    by blast
  let ?f = "\<lambda>r. if wh r then update_user_feedback_timestamp now (set_values r) else r"
  from x assms(1) have "?f x \<in> set (map ?f (table_rows t))" and "\<not> rating_checks t (?f x)"
    by (auto simp: rating_checks_iff)
  then have "\<not> list_all (rating_checks t) (map ?f (table_rows t))"
    unfolding list_all_iff by blast
  then show ?thesis
    by (simp add: exec_feedback_statement_def Let_def)
qed

text \<open>
  C8 (counterexample). The table has an \<open>accuracy_rating\<close> column without a range
  check, and a row with 6 in it, when the script runs: the script skips the column,
  the 6 stays, and an INSERT of 99 is accepted.
\<close>

theorem rating_column_exists_counterexample:
  "map accuracy_rating (table_rows
     (exec_feedback_statements
        [InsertRow \<lparr>updated_at = 2, other_columns = (), accuracy_rating = Some 99,
                    comprehensiveness_rating = None, helpfulness_rating = None\<rparr>]
        (add_multiple_ratings
           \<lparr>rating_columns = {Accuracy_rating}, range_checked = {},
            table_rows = [\<lparr>updated_at = 1, other_columns = (), accuracy_rating = Some 6,
                            comprehensiveness_rating = None,
                            helpfulness_rating = None\<rparr>]\<rparr>)))
   = [Some 6, Some 99]"
  by (simp add: add_multiple_ratings_def add_column_if_not_exists_def
        exec_feedback_statement_def columns_exist_def rating_checks_def
        between_1_and_5_def all_rating_columns_def)

text \<open>
  C8 (amended). For each of the three rating columns that the table does not have when
  the script runs, the script adds the column with its CHECK: after the script,
  whatever statements then write the table, every stored row has that rating either
  unset or between 1 and 5, and an INSERT or UPDATE that would put a value outside
  that range into it fails and leaves the table as it was. A column that the table
  already has is skipped together with its CHECK: the script changes neither its
  values nor whether it is range-checked.
\<close>

theorem stored_ratings_in_range:
  "(\<forall>c. c \<notin> rating_columns t \<longrightarrow>
      c \<in> range_checked (exec_feedback_statements sts (add_multiple_ratings t))
      \<and> (\<forall>r \<in> set (table_rows (exec_feedback_statements sts (add_multiple_ratings t))).
            \<forall>v. column_value c r = Some v \<longrightarrow> 1 \<le> v \<and> v \<le> 5))
   \<and> (\<forall>c u r. c \<in> range_checked u \<and> (\<exists>v. column_value c r = Some v \<and> \<not> (1 \<le> v \<and> v \<le> 5))
        \<longrightarrow> fst (exec_feedback_statement (InsertRow r) u) \<noteq> None
            \<and> snd (exec_feedback_statement (InsertRow r) u) = u)
   \<and> (\<forall>c u now wh set_values.
        c \<in> range_checked u
        \<and> (\<exists>x \<in> set (table_rows u). wh x
              \<and> (\<exists>v. column_value c (set_values x) = Some v \<and> \<not> (1 \<le> v \<and> v \<le> 5)))
        \<longrightarrow> fst (exec_feedback_statement (UpdateRows now wh set_values) u) \<noteq> None
            \<and> snd (exec_feedback_statement (UpdateRows now wh set_values) u) = u)
   \<and> (\<forall>c. c \<in> rating_columns t \<longrightarrow>
        (c \<in> range_checked (add_multiple_ratings t) \<longleftrightarrow> c \<in> range_checked t)
        \<and> map (column_value c) (table_rows (add_multiple_ratings t))
            = map (column_value c) (table_rows t))"
proof (intro conjI)
  show "\<forall>c. c \<notin> rating_columns t \<longrightarrow>
      c \<in> range_checked (exec_feedback_statements sts (add_multiple_ratings t))
      \<and> (\<forall>r \<in> set (table_rows (exec_feedback_statements sts (add_multiple_ratings t))).
            \<forall>v. column_value c r = Some v \<longrightarrow> 1 \<le> v \<and> v \<le> 5)"
  proof (intro allI impI)
    fix c assume "c \<notin> rating_columns t"
    then have "column_inv c (exec_feedback_statements sts (add_multiple_ratings t))"
      by (intro exec_feedback_statements_inv add_multiple_ratings_inv)
    then show "c \<in> range_checked (exec_feedback_statements sts (add_multiple_ratings t))
      \<and> (\<forall>r \<in> set (table_rows (exec_feedback_statements sts (add_multiple_ratings t))).
            \<forall>v. column_value c r = Some v \<longrightarrow> 1 \<le> v \<and> v \<le> 5)"
      by (auto simp: column_inv_def between_1_and_5_def split: option.splits)
  qed
next
  show "\<forall>c u r. c \<in> range_checked u
        \<and> (\<exists>v. column_value c r = Some v \<and> \<not> (1 \<le> v \<and> v \<le> 5))
        \<longrightarrow> fst (exec_feedback_statement (InsertRow r) u) \<noteq> None
            \<and> snd (exec_feedback_statement (InsertRow r) u) = u"
    using insert_violation unfolding not_between_iff by blast
next
  show "\<forall>c u now wh set_values.
        c \<in> range_checked u
        \<and> (\<exists>x \<in> set (table_rows u). wh x
              \<and> (\<exists>v. column_value c (set_values x) = Some v \<and> \<not> (1 \<le> v \<and> v \<le> 5)))
        \<longrightarrow> fst (exec_feedback_statement (UpdateRows now wh set_values) u) \<noteq> None
            \<and> snd (exec_feedback_statement (UpdateRows now wh set_values) u) = u"
    using update_violation unfolding not_between_iff by blast
next
  show "\<forall>c. c \<in> rating_columns t \<longrightarrow>
        (c \<in> range_checked (add_multiple_ratings t) \<longleftrightarrow> c \<in> range_checked t)
        \<and> map (column_value c) (table_rows (add_multiple_ratings t))
            = map (column_value c) (table_rows t)"
    using add_multiple_ratings_skips by blast
qed

theorem stored_ratings_in_range_witness:
  "table_rows (exec_feedback_statements
     [InsertRow \<lparr>updated_at = 1, other_columns = (), accuracy_rating = Some 5,
                 comprehensiveness_rating = None, helpfulness_rating = Some 1\<rparr>,
      InsertRow \<lparr>updated_at = 2, other_columns = (), accuracy_rating = Some 6,
                 comprehensiveness_rating = None, helpfulness_rating = None\<rparr>,
      UpdateRows 3 (\<lambda>r. True) (\<lambda>r. r\<lparr>helpfulness_rating := Some 0\<rparr>)]
     (add_multiple_ratings \<lparr>rating_columns = {}, range_checked = {}, table_rows = []\<rparr>))
   = [\<lparr>updated_at = 1, other_columns = (), accuracy_rating = Some 5,
        comprehensiveness_rating = None, helpfulness_rating = Some 1\<rparr>]
   \<and> Accuracy_rating \<in> range_checked
       (add_multiple_ratings
          (\<lparr>rating_columns = {}, range_checked = {}, table_rows = []\<rparr>
             :: unit user_feedback_table))"
proof -
  let ?t = "\<lparr>rating_columns = {}, range_checked = {}, table_rows = []\<rparr>
              :: unit user_feedback_table"
  note T = stored_ratings_in_range [of ?t "[]"]
  have "Accuracy_rating \<notin> rating_columns ?t" by simp
  from T [THEN conjunct1, rule_format, OF this, THEN conjunct1]
  have 1: "Accuracy_rating \<in> range_checked (add_multiple_ratings ?t)" by simp
  have 2: "table_rows (exec_feedback_statements
     [InsertRow \<lparr>updated_at = 1, other_columns = (), accuracy_rating = Some 5,
                 comprehensiveness_rating = None, helpfulness_rating = Some 1\<rparr>,
      InsertRow \<lparr>updated_at = 2, other_columns = (), accuracy_rating = Some 6,
                 comprehensiveness_rating = None, helpfulness_rating = None\<rparr>,
      UpdateRows 3 (\<lambda>r. True) (\<lambda>r. r\<lparr>helpfulness_rating := Some 0\<rparr>)]
     (add_multiple_ratings ?t))
   = [\<lparr>updated_at = 1, other_columns = (), accuracy_rating = Some 5,
        comprehensiveness_rating = None, helpfulness_rating = Some 1\<rparr>]"
    by (simp add: add_multiple_ratings_def add_column_if_not_exists_def
          exec_feedback_statement_def columns_exist_def rating_checks_def
          between_1_and_5_def update_user_feedback_timestamp_def all_rating_columns_def)
  from 1 2 show ?thesis by simp
qed

lemma insert_evaluation_cases:
  "insert_evaluation now v db = (e, db') \<Longrightarrow>
     (e \<noteq> None \<and> db' = db\<lparr>id_seq := id_seq db + 1\<rparr>)
     \<or> (e = None \<and> (\<exists>score. v_relevance_score v = Some score \<and> (score = 0 \<or> score = 1)
           \<and> varchar_ok 50 (v_retrieval_method v)
           \<and> references_ok (query_cache_ids db) (v_query_id v)
           \<and> references_ok (document_chunk_ids db) (v_chunk_id v)
           \<and> db' = db\<lparr>id_seq := id_seq db + 1,
                 retrieval_evaluations := retrieval_evaluations db
                   @ [\<lparr>id_column = id_seq db + 1, query_id = v_query_id v,
                        chunk_id = v_chunk_id v, relevance_score = score,
                        llm_score = v_llm_score v, explanation = v_explanation v,
                        retrieval_method = v_retrieval_method v,
                        rank_position = v_rank_position v, created_at = now\<rparr>]\<rparr>))"
  by (auto simp: insert_evaluation_def Let_def split: option.splits if_splits)

lemma insert_evaluation_inv:
  assumes "evaluation_inv db"
  shows "evaluation_inv (snd (insert_evaluation now v db))"
proof -
  obtain e db' where r: "insert_evaluation now v db = (e, db')"
    by (cases "insert_evaluation now v db")
  from insert_evaluation_cases [OF r] assms have "evaluation_inv db'"
    by (fastforce simp: evaluation_inv_def)
  with r show ?thesis by simp
qed

lemma exec_evaluation_statement_inv:
  "evaluation_inv db \<Longrightarrow> evaluation_inv (exec_evaluation_statement st db)"
proof (cases st)
  case (InsertEvaluation now v)
  assume "evaluation_inv db"
  with InsertEvaluation show ?thesis by (simp add: insert_evaluation_inv)
qed (auto simp: evaluation_inv_def delete_evaluations_def delete_query_def delete_chunk_def
       distinct_map_filter)

lemma exec_evaluation_statements_inv:
  "evaluation_inv db \<Longrightarrow> evaluation_inv (exec_evaluation_statements sts db)"
  by (induction sts arbitrary: db) (simp_all add: exec_evaluation_statement_inv)

lemma created_db_inv: "evaluation_inv (created_db qs cs)"
  by (simp add: evaluation_inv_def created_db_def)

lemma repeated_insert:
  assumes "insert_evaluation now v db = (None, db1)"
  shows "fst (insert_evaluation now' v db1) = None
     \<and> \<not> rank_unique (retrieval_evaluations (snd (insert_evaluation now' v db1)))"
proof -
  from insert_evaluation_cases [OF assms]
  obtain score where s: "v_relevance_score v = Some score" "score = 0 \<or> score = 1"
    and ok: "varchar_ok 50 (v_retrieval_method v)"
      "references_ok (query_cache_ids db) (v_query_id v)"
      "references_ok (document_chunk_ids db) (v_chunk_id v)"
    and db1: "db1 = db\<lparr>id_seq := id_seq db + 1,
                 retrieval_evaluations := retrieval_evaluations db
                   @ [\<lparr>id_column = id_seq db + 1, query_id = v_query_id v,
                        chunk_id = v_chunk_id v, relevance_score = score,
                        llm_score = v_llm_score v, explanation = v_explanation v,
                        retrieval_method = v_retrieval_method v,
                        rank_position = v_rank_position v, created_at = now\<rparr>]\<rparr>"
    by auto
  let ?r1 = "\<lparr>id_column = id_seq db + 1, query_id = v_query_id v,
                        chunk_id = v_chunk_id v, relevance_score = score,
                        llm_score = v_llm_score v, explanation = v_explanation v,
                        retrieval_method = v_retrieval_method v,
                        rank_position = v_rank_position v, created_at = now\<rparr>"
  let ?r2 = "\<lparr>id_column = id_seq db + 2, query_id = v_query_id v,
                        chunk_id = v_chunk_id v, relevance_score = score,
                        llm_score = v_llm_score v, explanation = v_explanation v,
                        retrieval_method = v_retrieval_method v,
                        rank_position = v_rank_position v, created_at = now'\<rparr>"
  have second: "insert_evaluation now' v db1
      = (None, db1\<lparr>id_seq := id_seq db + 2,
                   retrieval_evaluations := retrieval_evaluations db @ [?r1, ?r2]\<rparr>)"
    using s ok by (auto simp: insert_evaluation_def Let_def db1)
  have "?r1 \<in> set (retrieval_evaluations db @ [?r1, ?r2])"
    and "?r2 \<in> set (retrieval_evaluations db @ [?r1, ?r2])"
    and "?r1 \<noteq> ?r2"
    by simp_all
  then have "\<not> rank_unique (retrieval_evaluations db @ [?r1, ?r2])"
    unfolding rank_unique_def
    by (intro notI) (drule bspec [of _ _ ?r1], simp, drule bspec [of _ _ ?r2], simp, simp)
  with second show ?thesis by simp
qed

text \<open>
  C7 (amended). In every state of the table reached from its creation, the rows have
  distinct ids and a relevance score of 0 or 1. Rank position is not constrained: an
  INSERT that succeeds succeeds again with the same values, and then two different
  rows have the same query, method and rank position.
\<close>

theorem evaluation_rows_keyed_not_ranked:
  "distinct (map id_column
      (retrieval_evaluations (exec_evaluation_statements sts (created_db qs cs))))
   \<and> (\<forall>r \<in> set (retrieval_evaluations (exec_evaluation_statements sts (created_db qs cs))).
         relevance_score r = 0 \<or> relevance_score r = 1)
   \<and> (\<forall>now now' v db db1.
         insert_evaluation now v db = (None, db1) \<longrightarrow>
         fst (insert_evaluation now' v db1) = None
         \<and> \<not> rank_unique (retrieval_evaluations (snd (insert_evaluation now' v db1))))"
proof -
  have "evaluation_inv (exec_evaluation_statements sts (created_db qs cs))"
    by (intro exec_evaluation_statements_inv created_db_inv)
  then show ?thesis
    using repeated_insert by (simp add: evaluation_inv_def) blast
qed

text \<open>
  C7 (counterexample). Two evaluation runs store chunk 10 for query 1 with method
  "vector" at rank position 1: both INSERTs are accepted, and the two rows differ only
  in id and time.
\<close>

theorem rank_position_repeated_counterexample:
  "\<not> rank_unique (retrieval_evaluations
       (exec_evaluation_statements
          [InsertEvaluation 100
             \<lparr>v_query_id = Some 1, v_chunk_id = Some 10, v_relevance_score = Some 1,
              v_llm_score = (None :: int option), v_explanation = None,
              v_retrieval_method = Some ''vector'', v_rank_position = Some 1\<rparr>,
           InsertEvaluation 200
             \<lparr>v_query_id = Some 1, v_chunk_id = Some 10, v_relevance_score = Some 1,
              v_llm_score = None, v_explanation = None,
              v_retrieval_method = Some ''vector'', v_rank_position = Some 1\<rparr>]
          (created_db {1} {10})))"
  by (simp add: rank_unique_def created_db_def insert_evaluation_def Let_def
        references_ok_def varchar_ok_def)

theorem evaluation_rows_keyed_not_ranked_witness:
  "fst (insert_evaluation 200
     \<lparr>v_query_id = Some 1, v_chunk_id = Some 10, v_relevance_score = Some 1,
      v_llm_score = (None :: int option), v_explanation = None,
      v_retrieval_method = Some ''vector'', v_rank_position = Some 1\<rparr>
     (snd (insert_evaluation 100
       \<lparr>v_query_id = Some 1, v_chunk_id = Some 10, v_relevance_score = Some 1,
        v_llm_score = None, v_explanation = None,
        v_retrieval_method = Some ''vector'', v_rank_position = Some 1\<rparr>
       (created_db {1} {10})))) = None"
proof -
  let ?v = "\<lparr>v_query_id = Some 1, v_chunk_id = Some 10, v_relevance_score = Some 1,
      v_llm_score = (None :: int option), v_explanation = None,
      v_retrieval_method = Some ''vector'', v_rank_position = Some 1\<rparr>"
  obtain e db1 where r: "insert_evaluation 100 ?v (created_db {1} {10}) = (e, db1)"
    by (cases "insert_evaluation 100 ?v (created_db {1} {10})")
  then have "e = None"
    by (auto simp: insert_evaluation_def Let_def created_db_def references_ok_def
          varchar_ok_def)
  with r have "insert_evaluation 100 ?v (created_db {1} {10}) = (None, db1)" by simp
  from evaluation_rows_keyed_not_ranked [of "[]" "{}" "{}", THEN conjunct2, THEN conjunct2,
         rule_format, OF this, of 200] r
  show ?thesis by simp
qed


end
